theory Spec2Isabelle
  imports Complex_Main
begin

section \<open>Values, errors and the error-checking layer\<close>

text \<open>
  Python values that reach the argument checks.  A numpy array carries its shape and its flat
  data; the number of dimensions is the length of the shape.  Floats are modelled by reals,
  with not-a-number as a value of its own.
\<close>

datatype pyval =
    NoneV
  | BoolV bool
  | IntV int
  | FloatV real
  | NanV
  | StrV string
  | IntArrayV "nat list" "int list"
  | FloatArrayV "nat list" "real list"

text \<open>
  A floating-point number where infinities and not-a-number matter; finite values are exact
  reals.  Division does not raise on a zero divisor: it gives not-a-number for zero by zero
  and an infinity otherwise.
\<close>

datatype pyfloat = Finite real | PlusInfinity | MinusInfinity | NotANumber


text \<open>
  \<open>InvalidInput\<close> is what the error-checking layer raises (a TypeError or a ValueError in
  the source).  The other errors are those of Python and numpy themselves: \<open>KeyError\<close> for a
  missing dictionary key, \<open>IndexError\<close> for an index out of range, \<open>ValueError\<close> for
  mismatched shapes, an empty reduction, a time that is not found or \<open>range\<close> with step zero,
  \<open>ArithmeticError\<close> for a division by zero or the conversion of an infinity to an integer,
  and \<open>AssertionError\<close> for an \<open>assert\<close> that fails.
\<close>

datatype error =
  InvalidInput | KeyError | IndexError | ValueError | ArithmeticError | AssertionError

type_synonym pydict = "string \<rightharpoonup> pyval"

definition lookup :: "pydict \<Rightarrow> string \<Rightarrow> error + pyval" where
  "lookup d k = (case d k of None \<Rightarrow> Inl KeyError | Some v \<Rightarrow> Inr v)"

text \<open>The checks of the error-checking layer used by the functions below.\<close>

fun is_real_number :: "pyval \<Rightarrow> bool" where
  "is_real_number (IntV i) = True"
| "is_real_number (FloatV x) = True"
| "is_real_number v = False"

fun real_of_pyval :: "pyval \<Rightarrow> real" where
  "real_of_pyval (IntV i) = of_int i"
| "real_of_pyval (FloatV x) = x"
| "real_of_pyval v = 0"

fun num_dimensions :: "pyval \<Rightarrow> nat option" where
  "num_dimensions (IntArrayV shape xs) = Some (length shape)"
| "num_dimensions (FloatArrayV shape xs) = Some (length shape)"
| "num_dimensions v = None"

definition assert_is_numpy_array :: "pyval \<Rightarrow> nat \<Rightarrow> error + unit" where
  "assert_is_numpy_array v n =
     (if num_dimensions v = Some n then Inr () else Inl InvalidInput)"

fun assert_is_integer_numpy_array :: "pyval \<Rightarrow> error + unit" where
  "assert_is_integer_numpy_array (IntArrayV shape xs) = Inr ()"
| "assert_is_integer_numpy_array v = Inl InvalidInput"

fun assert_is_integer :: "pyval \<Rightarrow> error + unit" where
  "assert_is_integer (IntV i) = Inr ()"
| "assert_is_integer v = Inl InvalidInput"

definition assert_is_geq :: "pyval \<Rightarrow> real \<Rightarrow> error + unit" where
  "assert_is_geq v b =
     (if is_real_number v \<and> real_of_pyval v \<ge> b then Inr () else Inl InvalidInput)"

definition assert_is_greater :: "pyval \<Rightarrow> real \<Rightarrow> error + unit" where
  "assert_is_greater v b =
     (if is_real_number v \<and> real_of_pyval v > b then Inr () else Inl InvalidInput)"

definition assert_is_less_than :: "pyval \<Rightarrow> real \<Rightarrow> error + unit" where
  "assert_is_less_than v b =
     (if is_real_number v \<and> real_of_pyval v < b then Inr () else Inl InvalidInput)"

text \<open>
  A statement \<open>check(option_dict[key], ...)\<close>: the lookup raises first, then the check.
\<close>

definition check_key :: "pydict \<Rightarrow> string \<Rightarrow> (pyval \<Rightarrow> error + unit) \<Rightarrow> error + unit" where
  "check_key d k chk = (case lookup d k of Inl e \<Rightarrow> Inl e | Inr v \<Rightarrow> chk v)"

text \<open>A sequence of statements stops at the first one that raises.\<close>

fun first_error :: "(error + unit) list \<Rightarrow> error + unit" where
  "first_error [] = Inr ()"
| "first_error (Inl e # cs) = Inl e"
| "first_error (Inr u # cs) = first_error cs"

section \<open>Generator options (neural\_net.py)\<close>

definition DAYS_TO_SECONDS :: int where
  "DAYS_TO_SECONDS = 86400"

definition SPATIAL_DS_FACTOR_KEY :: string where
  "SPATIAL_DS_FACTOR_KEY = ''spatial_downsampling_factor''"

definition BATCH_SIZE_KEY :: string where
  "BATCH_SIZE_KEY = ''num_examples_per_batch''"

definition MAX_DAILY_EXAMPLES_KEY :: string where
  "MAX_DAILY_EXAMPLES_KEY = ''max_examples_per_day_in_batch''"

definition BAND_NUMBERS_KEY :: string where
  "BAND_NUMBERS_KEY = ''band_numbers''"

definition LEAD_TIME_KEY :: string where
  "LEAD_TIME_KEY = ''lead_time_seconds''"

definition REFL_THRESHOLD_KEY :: string where
  "REFL_THRESHOLD_KEY = ''reflectivity_threshold_dbz''"

definition UNIFORMIZE_FLAG_KEY :: string where
  "UNIFORMIZE_FLAG_KEY = ''uniformize''"

definition NORMALIZE_FLAG_KEY :: string where
  "NORMALIZE_FLAG_KEY = ''normalize''"

text \<open>
  The default band numbers are \<open>satellite_io.BAND_NUMBERS\<close>, a constant of a module that is
  not part of the sources at hand; it is a parameter here.
\<close>

definition DEFAULT_GENERATOR_OPTION_DICT :: "pyval \<Rightarrow> pydict" where
  "DEFAULT_GENERATOR_OPTION_DICT band_numbers =
     [SPATIAL_DS_FACTOR_KEY \<mapsto> IntV 1,
      BATCH_SIZE_KEY \<mapsto> IntV 256,
      MAX_DAILY_EXAMPLES_KEY \<mapsto> IntV 64,
      BAND_NUMBERS_KEY \<mapsto> band_numbers,
      REFL_THRESHOLD_KEY \<mapsto> FloatV 35,
      NORMALIZE_FLAG_KEY \<mapsto> BoolV True,
      UNIFORMIZE_FLAG_KEY \<mapsto> BoolV True]"

definition merge_defaults :: "pyval \<Rightarrow> pydict \<Rightarrow> pydict" where
  "merge_defaults band_numbers orig_option_dict =
     DEFAULT_GENERATOR_OPTION_DICT band_numbers ++ orig_option_dict"

definition check_generator_args :: "pyval \<Rightarrow> pydict \<Rightarrow> error + pydict" where
  "check_generator_args band_numbers orig_option_dict =
     (let option_dict = merge_defaults band_numbers orig_option_dict in
      case first_error
        [check_key option_dict BAND_NUMBERS_KEY (\<lambda>v. assert_is_numpy_array v 1),
         check_key option_dict BAND_NUMBERS_KEY assert_is_integer_numpy_array,
         check_key option_dict BATCH_SIZE_KEY assert_is_integer,
         check_key option_dict BATCH_SIZE_KEY (\<lambda>v. assert_is_geq v 2),
         check_key option_dict SPATIAL_DS_FACTOR_KEY assert_is_integer,
         check_key option_dict SPATIAL_DS_FACTOR_KEY (\<lambda>v. assert_is_geq v 1),
         check_key option_dict MAX_DAILY_EXAMPLES_KEY assert_is_integer,
         check_key option_dict MAX_DAILY_EXAMPLES_KEY (\<lambda>v. assert_is_geq v 2),
         check_key option_dict LEAD_TIME_KEY assert_is_integer,
         check_key option_dict LEAD_TIME_KEY (\<lambda>v. assert_is_geq v 0),
         check_key option_dict LEAD_TIME_KEY (\<lambda>v. assert_is_less_than v (of_int DAYS_TO_SECONDS)),
         check_key option_dict REFL_THRESHOLD_KEY (\<lambda>v. assert_is_greater v 0)]
      of Inl e \<Rightarrow> Inl e | Inr u \<Rightarrow> Inr option_dict)"

text \<open>The conditions of the specification on a merged option dictionary.\<close>

definition is_int_geq :: "pyval option \<Rightarrow> int \<Rightarrow> bool" where
  "is_int_geq v b = (case v of Some (IntV i) \<Rightarrow> i \<ge> b | _ \<Rightarrow> False)"

definition is_1d_int_array :: "pyval option \<Rightarrow> bool" where
  "is_1d_int_array v = (case v of Some (IntArrayV shape xs) \<Rightarrow> length shape = 1 | _ \<Rightarrow> False)"

definition is_valid_lead_time :: "pyval option \<Rightarrow> bool" where
  "is_valid_lead_time v = (case v of Some (IntV i) \<Rightarrow> 0 \<le> i \<and> i < 86400 | _ \<Rightarrow> False)"

definition is_positive_number :: "pyval option \<Rightarrow> bool" where
  "is_positive_number v =
     (case v of Some (IntV i) \<Rightarrow> i > 0 | Some (FloatV x) \<Rightarrow> x > 0 | _ \<Rightarrow> False)"

definition valid_generator_options :: "pydict \<Rightarrow> bool" where
  "valid_generator_options d \<longleftrightarrow>
     is_valid_lead_time (d LEAD_TIME_KEY) \<and>
     is_int_geq (d BATCH_SIZE_KEY) 2 \<and>
     is_int_geq (d SPATIAL_DS_FACTOR_KEY) 1 \<and>
     is_int_geq (d MAX_DAILY_EXAMPLES_KEY) 2 \<and>
     is_1d_int_array (d BAND_NUMBERS_KEY) \<and>
     is_positive_number (d REFL_THRESHOLD_KEY)"

text \<open>The checks made before the lead time is looked up.\<close>

definition early_checks_pass :: "pydict \<Rightarrow> bool" where
  "early_checks_pass d \<longleftrightarrow>
     is_1d_int_array (d BAND_NUMBERS_KEY) \<and> is_int_geq (d BATCH_SIZE_KEY) 2 \<and>
     is_int_geq (d SPATIAL_DS_FACTOR_KEY) 1 \<and> is_int_geq (d MAX_DAILY_EXAMPLES_KEY) 2"

text \<open>An array of band numbers as the satellite module could hold it.\<close>

definition example_band_numbers :: pyval where
  "example_band_numbers = IntArrayV [7] [8, 9, 10, 11, 12, 13, 14]"

section \<open>Echo classification (echo\_classification.py)\<close>

text \<open>
  A reflectivity volume is indexed by row, column and height; a flag matrix by row and column.
  Reflectivities are reals: \<open>find_convective_pixels\<close> replaces every not-a-number by zero
  before the first criterion runs.
\<close>

type_synonym matrix2 = "real list list"
type_synonym matrix3 = "real list list list"
type_synonym flag_matrix = "bool list list"

definition TOLERANCE :: real where
  "TOLERANCE = 1 / 1000000"

definition DEGREES_LAT_TO_METRES :: real where
  "DEGREES_LAT_TO_METRES = 60 * 1852"

definition MELT_LEVEL_INTERCEPT_BY_MONTH_M_ASL :: "real list" where
  "MELT_LEVEL_INTERCEPT_BY_MONTH_M_ASL =
     [7072, 7896, 8558, 7988, 7464, 6728, 6080, 6270, 6786, 8670, 8892, 7936]"

definition MELT_LEVEL_SLOPE_BY_MONTH_M_DEG01 :: "real list" where
  "MELT_LEVEL_SLOPE_BY_MONTH_M_DEG01 =
     [- 124, - 152, - 160, - 128, - 100, - 65, - 39, - 44, - 67, - 137, - 160, - 147]"

record grid_metadata =
  min_grid_point_latitude_deg :: real
  latitude_spacing_deg :: real
  min_grid_point_longitude_deg :: real
  longitude_spacing_deg :: real
  grid_point_heights_m_asl :: "real list"
  grid_point_latitudes_deg :: "real list"
  grid_point_longitudes_deg :: "real list"

subsection \<open>numpy operations\<close>

fun numpy_max :: "real list \<Rightarrow> error + real" where
  "numpy_max [] = Inl ValueError"
| "numpy_max (x # xs) = Inr (fold max xs x)"

fun numpy_min :: "real list \<Rightarrow> error + real" where
  "numpy_min [] = Inl ValueError"
| "numpy_min (x # xs) = Inr (fold min xs x)"

definition deg2rad :: "real \<Rightarrow> real" where
  "deg2rad x = x * pi / 180"

definition has_shape3 :: "nat \<Rightarrow> nat \<Rightarrow> nat \<Rightarrow> 'a list list list \<Rightarrow> bool" where
  "has_shape3 m n h r \<longleftrightarrow>
     length r = m \<and> list_all (\<lambda>row. length row = n \<and> list_all (\<lambda>col. length col = h) row) r"

definition same_shape2 :: "'a list list \<Rightarrow> 'b list list \<Rightarrow> bool" where
  "same_shape2 a b \<longleftrightarrow> map length a = map length b"

text \<open>
  \<open>numpy.max(..., axis=-1)\<close> of a volume: the maximum over heights in every column.  A
  reduction over no heights raises.
\<close>

definition max_over_heights :: "matrix3 \<Rightarrow> error + matrix2" where
  "max_over_heights r =
     (if list_ex (list_ex (\<lambda>col. col = [])) r then Inl ValueError
      else Inr (map (map (\<lambda>col. fold max (tl col) (hd col))) r))"

text \<open>
  \<open>numpy.logical_or\<close> and \<open>numpy.logical_and\<close> of two matrices of one shape.  Operands of
  different shapes raise (broadcasting of a dimension of size one is not modelled).
\<close>

definition logical_or :: "flag_matrix \<Rightarrow> flag_matrix \<Rightarrow> error + flag_matrix" where
  "logical_or a b =
     (if same_shape2 a b then Inr (map2 (map2 (\<lambda>x y. x \<or> y)) a b) else Inl ValueError)"

definition logical_and :: "flag_matrix \<Rightarrow> flag_matrix \<Rightarrow> error + flag_matrix" where
  "logical_and a b =
     (if same_shape2 a b then Inr (map2 (map2 (\<lambda>x y. x \<and> y)) a b) else Inl ValueError)"

definition geq_threshold :: "matrix2 \<Rightarrow> real \<Rightarrow> flag_matrix" where
  "geq_threshold m t = map (map (\<lambda>x. x \<ge> t)) m"

text \<open>\<open>numpy.sum\<close> of a flag matrix: the number of convective pixels.\<close>

definition num_convective :: "flag_matrix \<Rightarrow> nat" where
  "num_convective flags = sum_list (map (\<lambda>row. length (filter id row)) flags)"

subsection \<open>Neighbourhood size\<close>

definition neigh_metres_to_rowcol :: "real \<Rightarrow> grid_metadata \<Rightarrow> error + (int \<times> int)" where
  "neigh_metres_to_rowcol neigh_radius_metres grid_metadata_dict =
     (let y_spacing_metres = latitude_spacing_deg grid_metadata_dict * DEGREES_LAT_TO_METRES in
      if y_spacing_metres = 0 then Inl ArithmeticError
      else
        let num_rows = 1 + 2 * \<lceil>neigh_radius_metres / y_spacing_metres\<rceil> in
        case numpy_max (grid_point_latitudes_deg grid_metadata_dict) of
          Inl e \<Rightarrow> Inl e
        | Inr max_latitude \<Rightarrow>
           (case numpy_min (grid_point_latitudes_deg grid_metadata_dict) of
              Inl e \<Rightarrow> Inl e
            | Inr min_latitude \<Rightarrow>
               (let mean_latitude_deg = (max_latitude - min_latitude) / 2;
                    mean_x_spacing_metres =
                      longitude_spacing_deg grid_metadata_dict * DEGREES_LAT_TO_METRES *
                      cos (deg2rad mean_latitude_deg)
                in if mean_x_spacing_metres = 0 then Inl ArithmeticError
                   else Inr (num_rows,
                     1 + 2 * \<lceil>neigh_radius_metres / mean_x_spacing_metres\<rceil>))))"

text \<open>
  The same computation as the specification words it, for comparison: the latitude under the
  cosine is the mean of the grid-point latitudes.
\<close>

definition spec_neigh_metres_to_rowcol :: "real \<Rightarrow> grid_metadata \<Rightarrow> error + (int \<times> int)" where
  "spec_neigh_metres_to_rowcol neigh_radius_metres grid_metadata_dict =
     (let lats = grid_point_latitudes_deg grid_metadata_dict;
          y_spacing_metres = latitude_spacing_deg grid_metadata_dict * DEGREES_LAT_TO_METRES in
      if y_spacing_metres = 0 then Inl ArithmeticError
      else if lats = [] then Inl ValueError
      else
        let mean_latitude_deg = sum_list lats / real (length lats);
            mean_x_spacing_metres =
              longitude_spacing_deg grid_metadata_dict * DEGREES_LAT_TO_METRES *
              cos (deg2rad mean_latitude_deg)
        in if mean_x_spacing_metres = 0 then Inl ArithmeticError
           else Inr (1 + 2 * \<lceil>neigh_radius_metres / y_spacing_metres\<rceil>,
                     1 + 2 * \<lceil>neigh_radius_metres / mean_x_spacing_metres\<rceil>))"

subsection \<open>Peakedness\<close>

text \<open>
  \<open>scipy.ndimage.median_filter\<close> with \<open>mode='constant', cval=0\<close>: the window of
  \<open>size\<close> cells is centred on the cell, cells outside the grid count as zero, and the result
  is the element of rank \<open>size // 2\<close> of the sorted window.
\<close>

definition padded_value :: "matrix3 \<Rightarrow> int \<Rightarrow> int \<Rightarrow> nat \<Rightarrow> real" where
  "padded_value r i j k =
     (if 0 \<le> i \<and> i < int (length r) \<and> 0 \<le> j \<and> j < int (length (r ! nat i)) \<and>
         k < length (r ! nat i ! nat j)
      then r ! nat i ! nat j ! k else 0)"

definition window_offsets :: "int \<Rightarrow> int list" where
  "window_offsets n = [- (n div 2) .. n - 1 - n div 2]"

definition window_values :: "matrix3 \<Rightarrow> int \<Rightarrow> int \<Rightarrow> nat \<Rightarrow> nat \<Rightarrow> nat \<Rightarrow> real list" where
  "window_values r num_rows_in_neigh num_columns_in_neigh i j k =
     concat (map (\<lambda>di. map (\<lambda>dj. padded_value r (int i + di) (int j + dj) k)
                    (window_offsets num_columns_in_neigh))
               (window_offsets num_rows_in_neigh))"

definition median :: "real list \<Rightarrow> real" where
  "median vs = sort vs ! (length vs div 2)"

definition get_peakedness :: "matrix3 \<Rightarrow> int \<Rightarrow> int \<Rightarrow> error + matrix3" where
  "get_peakedness reflectivity_matrix_dbz num_rows_in_neigh num_columns_in_neigh =
     (if num_rows_in_neigh \<le> 0 \<or> num_columns_in_neigh \<le> 0 then Inl ValueError
      else Inr
        (map (\<lambda>i. map (\<lambda>j. map (\<lambda>k.
            reflectivity_matrix_dbz ! i ! j ! k -
            median (window_values reflectivity_matrix_dbz
                      num_rows_in_neigh num_columns_in_neigh i j k))
          [0 ..< length (reflectivity_matrix_dbz ! i ! j)])
          [0 ..< length (reflectivity_matrix_dbz ! i)])
          [0 ..< length reflectivity_matrix_dbz]))"

definition peakedness_threshold :: "real \<Rightarrow> real" where
  "peakedness_threshold x = (let t = 10 - x\<^sup>2 / 337.5 in if t < 4 then 4 else t)"

definition get_peakedness_thresholds :: "matrix3 \<Rightarrow> matrix3" where
  "get_peakedness_thresholds reflectivity_matrix_dbz =
     map (map (map peakedness_threshold)) reflectivity_matrix_dbz"

subsection \<open>Criterion 1\<close>

text \<open>
  The quotient of two counts as numpy computes it in floating point: a zero denominator gives
  not-a-number under a zero numerator and plus infinity under a positive one, and no error.
\<close>

definition true_divide :: "nat \<Rightarrow> nat \<Rightarrow> pyfloat" where
  "true_divide numerator denominator =
     (if denominator = 0 then (if numerator = 0 then NotANumber else PlusInfinity)
      else Finite (real numerator / real denominator))"

fun pyfloat_geq :: "pyfloat \<Rightarrow> real \<Rightarrow> bool" where
  "pyfloat_geq (Finite x) c = (x \<ge> c)"
| "pyfloat_geq PlusInfinity c = True"
| "pyfloat_geq MinusInfinity c = False"
| "pyfloat_geq NotANumber c = False"

definition count_true :: "bool list \<Rightarrow> nat" where
  "count_true bs = length (filter id bs)"

definition exceedance_numerator :: "matrix3 \<Rightarrow> matrix3 \<Rightarrow> nat list list" where
  "exceedance_numerator peakedness_matrix_dbz peakedness_threshold_matrix_dbz =
     map2 (map2 (\<lambda>ps ts. count_true (map2 (\<lambda>p t. p > t) ps ts)))
       peakedness_matrix_dbz peakedness_threshold_matrix_dbz"

definition exceedance_denominator :: "matrix3 \<Rightarrow> nat list list" where
  "exceedance_denominator this_reflectivity_matrix_dbz =
     map (map (\<lambda>col. count_true (map (\<lambda>x. x > 0) col))) this_reflectivity_matrix_dbz"

definition fractional_exceedance_flags :: "nat list list \<Rightarrow> nat list list \<Rightarrow> flag_matrix" where
  "fractional_exceedance_flags numerator denominator =
     map2 (map2 (\<lambda>n d. pyfloat_geq (true_divide n d) (1 / 2))) numerator denominator"

definition max_height_index :: "real list \<Rightarrow> real \<Rightarrow> int" where
  "max_height_index heights max_peakedness_height_m_asl =
     (case filter (\<lambda>k. heights ! k \<ge> max_peakedness_height_m_asl) [0 ..< length heights] of
        [] \<Rightarrow> int (length heights) - 1
      | k # ks \<Rightarrow> int k)"

definition heights_up_to :: "matrix3 \<Rightarrow> int \<Rightarrow> matrix3" where
  "heights_up_to r idx = map (map (take (nat (idx + 1)))) r"

text \<open>
  The flags of criterion 1 on a grid, before the composite-reflectivity gate: lines 363 to 381
  of the source, used at full or at halved resolution.
\<close>

definition peakedness_flags :: "matrix3 \<Rightarrow> int \<Rightarrow> int \<Rightarrow> error + flag_matrix" where
  "peakedness_flags this_reflectivity_matrix_dbz num_rows_in_neigh num_columns_in_neigh =
     (case get_peakedness this_reflectivity_matrix_dbz num_rows_in_neigh num_columns_in_neigh of
        Inl e \<Rightarrow> Inl e
      | Inr peakedness_matrix_dbz \<Rightarrow>
          Inr (fractional_exceedance_flags
                 (exceedance_numerator peakedness_matrix_dbz
                    (get_peakedness_thresholds this_reflectivity_matrix_dbz))
                 (exceedance_denominator this_reflectivity_matrix_dbz)))"

text \<open>
  Halving and doubling the resolution go through scipy's \<open>RectBivariateSpline\<close> (degree one,
  no smoothing), which is a parameter here: \<open>spline x y z xq yq\<close> is the spline through the
  values \<open>z\<close> on the grid \<open>x\<close>, \<open>y\<close>, evaluated on the grid \<open>xq\<close>, \<open>yq\<close>.
\<close>

type_synonym spline = "real list \<Rightarrow> real list \<Rightarrow> matrix2 \<Rightarrow> real list \<Rightarrow> real list \<Rightarrow> matrix2"

fun every_second :: "'a list \<Rightarrow> 'a list" where
  "every_second [] = []"
| "every_second [x] = [x]"
| "every_second (x # y # xs) = x # every_second xs"

definition num_heights :: "matrix3 \<Rightarrow> nat" where
  "num_heights r = (case concat r of [] \<Rightarrow> 0 | col # cols \<Rightarrow> length col)"

definition halve_refl_resolution ::
    "spline \<Rightarrow> matrix3 \<Rightarrow> real list \<Rightarrow> real list \<Rightarrow> matrix3 \<times> real list \<times> real list" where
  "halve_refl_resolution spl fine_reflectivity_matrix_dbz fine_grid_point_latitudes_deg
       fine_grid_point_longitudes_deg =
     (let coarse_grid_point_latitudes_deg = every_second fine_grid_point_latitudes_deg;
          coarse_grid_point_longitudes_deg = every_second fine_grid_point_longitudes_deg;
          slices = map (\<lambda>k. spl fine_grid_point_latitudes_deg fine_grid_point_longitudes_deg
                        (map (map (\<lambda>col. col ! k)) fine_reflectivity_matrix_dbz)
                        coarse_grid_point_latitudes_deg coarse_grid_point_longitudes_deg)
                     [0 ..< num_heights fine_reflectivity_matrix_dbz]
      in (map (\<lambda>i. map (\<lambda>j. map (\<lambda>s. s ! i ! j) slices)
                  [0 ..< length coarse_grid_point_longitudes_deg])
            [0 ..< length coarse_grid_point_latitudes_deg],
          coarse_grid_point_latitudes_deg, coarse_grid_point_longitudes_deg))"

definition double_class_resolution ::
    "spline \<Rightarrow> flag_matrix \<Rightarrow> real list \<Rightarrow> real list \<Rightarrow> real list \<Rightarrow> real list \<Rightarrow> flag_matrix" where
  "double_class_resolution spl coarse_convective_flag_matrix coarse_grid_point_latitudes_deg
       coarse_grid_point_longitudes_deg fine_grid_point_latitudes_deg
       fine_grid_point_longitudes_deg =
     map (map (\<lambda>x. \<bar>x\<bar> > 1 / 2))
       (spl coarse_grid_point_latitudes_deg coarse_grid_point_longitudes_deg
          (map (map (\<lambda>b. if b then 1 else 0)) coarse_convective_flag_matrix)
          fine_grid_point_latitudes_deg fine_grid_point_longitudes_deg)"

definition composite_gate :: "matrix3 \<Rightarrow> real option \<Rightarrow> flag_matrix \<Rightarrow> error + flag_matrix" where
  "composite_gate reflectivity_matrix_dbz min_composite_refl_dbz convective_flag_matrix =
     (case min_composite_refl_dbz of
        None \<Rightarrow> Inr convective_flag_matrix
      | Some t \<Rightarrow>
         (case max_over_heights reflectivity_matrix_dbz of
            Inl e \<Rightarrow> Inl e
          | Inr composite_refl_matrix_dbz \<Rightarrow>
              logical_and convective_flag_matrix (geq_threshold composite_refl_matrix_dbz t)))"

definition apply_convective_criterion1 ::
    "spline \<Rightarrow> matrix3 \<Rightarrow> real \<Rightarrow> real \<Rightarrow> bool \<Rightarrow> real option \<Rightarrow> grid_metadata \<Rightarrow>
     error + flag_matrix" where
  "apply_convective_criterion1 spl reflectivity_matrix_dbz peakedness_neigh_metres
       max_peakedness_height_m_asl halve_resolution_for_peakedness min_composite_refl_dbz
       grid_metadata_dict =
     (let idx = max_height_index (grid_point_heights_m_asl grid_metadata_dict)
                  max_peakedness_height_m_asl
      in
      if halve_resolution_for_peakedness then
        (case halve_refl_resolution spl reflectivity_matrix_dbz
                (grid_point_latitudes_deg grid_metadata_dict)
                (grid_point_longitudes_deg grid_metadata_dict) of
           (coarse_reflectivity_matrix_dbz, coarse_lats, coarse_lons) \<Rightarrow>
             if length coarse_lats < 2 \<or> length coarse_lons < 2 then Inl IndexError
             else
               (case neigh_metres_to_rowcol peakedness_neigh_metres
                       (grid_metadata_dict
                          \<lparr>latitude_spacing_deg := coarse_lats ! 1 - coarse_lats ! 0,
                           longitude_spacing_deg := coarse_lons ! 1 - coarse_lons ! 0,
                           grid_point_latitudes_deg := coarse_lats,
                           grid_point_longitudes_deg := coarse_lons\<rparr>) of
                  Inl e \<Rightarrow> Inl e
                | Inr (num_rows_in_neigh, num_columns_in_neigh) \<Rightarrow>
                   (case peakedness_flags (heights_up_to coarse_reflectivity_matrix_dbz idx)
                           num_rows_in_neigh num_columns_in_neigh of
                      Inl e \<Rightarrow> Inl e
                    | Inr convective_flag_matrix \<Rightarrow>
                        composite_gate reflectivity_matrix_dbz min_composite_refl_dbz
                          (double_class_resolution spl convective_flag_matrix
                             coarse_lats coarse_lons
                             (grid_point_latitudes_deg grid_metadata_dict)
                             (grid_point_longitudes_deg grid_metadata_dict)))))
      else
        (case neigh_metres_to_rowcol peakedness_neigh_metres grid_metadata_dict of
           Inl e \<Rightarrow> Inl e
         | Inr (num_rows_in_neigh, num_columns_in_neigh) \<Rightarrow>
            (case peakedness_flags (heights_up_to reflectivity_matrix_dbz idx)
                    num_rows_in_neigh num_columns_in_neigh of
               Inl e \<Rightarrow> Inl e
             | Inr convective_flag_matrix \<Rightarrow>
                 composite_gate reflectivity_matrix_dbz min_composite_refl_dbz
                   convective_flag_matrix)))"

subsection \<open>Criteria 2 to 5\<close>

definition estimate_melting_level :: "nat \<Rightarrow> real \<Rightarrow> real" where
  "estimate_melting_level month_index latitude_deg =
     MELT_LEVEL_INTERCEPT_BY_MONTH_M_ASL ! (month_index - 1) +
     MELT_LEVEL_SLOPE_BY_MONTH_M_DEG01 ! (month_index - 1) * \<bar>latitude_deg\<bar>"

text \<open>
  The month of the valid time comes from \<open>time_conversion.unix_sec_to_string\<close>, a function
  of another package; \<open>unix_sec_to_month\<close> stands for it and returns 1 to 12.
\<close>

definition apply_convective_criterion2 ::
    "(int \<Rightarrow> nat) \<Rightarrow> matrix3 \<Rightarrow> flag_matrix \<Rightarrow> grid_metadata \<Rightarrow> int \<Rightarrow> real \<Rightarrow>
     error + flag_matrix" where
  "apply_convective_criterion2 unix_sec_to_month reflectivity_matrix_dbz convective_flag_matrix
       grid_metadata_dict valid_time_unix_sec min_composite_refl_aml_dbz =
     (let lats = grid_point_latitudes_deg grid_metadata_dict;
          lons = grid_point_longitudes_deg grid_metadata_dict;
          heights = grid_point_heights_m_asl grid_metadata_dict;
          month_index = unix_sec_to_month valid_time_unix_sec
      in
      if \<not> has_shape3 (length lats) (length lons) (length heights) reflectivity_matrix_dbz
      then Inl ValueError
      else
        (case max_over_heights
                (map2 (\<lambda>lat row.
                   map (map2 (\<lambda>h x.
                     (if h \<ge> estimate_melting_level month_index lat + 1000 then 1 else 0) * x)
                     heights) row)
                 lats reflectivity_matrix_dbz) of
           Inl e \<Rightarrow> Inl e
         | Inr composite_refl_matrix_aml_dbz \<Rightarrow>
             logical_or convective_flag_matrix
               (geq_threshold composite_refl_matrix_aml_dbz min_composite_refl_aml_dbz)))"

definition apply_convective_criterion3 ::
    "matrix3 \<Rightarrow> flag_matrix \<Rightarrow> grid_metadata \<Rightarrow> int \<Rightarrow> real \<Rightarrow> error + flag_matrix" where
  "apply_convective_criterion3 reflectivity_matrix_dbz convective_flag_matrix
       grid_metadata_dict min_echo_top_m_asl echo_top_level_dbz =
     (let lats = grid_point_latitudes_deg grid_metadata_dict;
          lons = grid_point_longitudes_deg grid_metadata_dict;
          heights = grid_point_heights_m_asl grid_metadata_dict
      in
      if \<not> has_shape3 (length lats) (length lons) (length heights) reflectivity_matrix_dbz
      then Inl ValueError
      else
        (case max_over_heights
                (map (map (map2 (\<lambda>h x. (if x \<ge> echo_top_level_dbz then 1 else 0) * h) heights))
                   reflectivity_matrix_dbz) of
           Inl e \<Rightarrow> Inl e
         | Inr echo_top_matrix_m_asl \<Rightarrow>
             logical_or convective_flag_matrix
               (geq_threshold echo_top_matrix_m_asl (of_int min_echo_top_m_asl))))"

text \<open>
  \<open>scipy.ndimage.convolve\<close> of the flags with the three-by-three matrix of weights 1/9,
  \<open>mode='constant', cval=0\<close>: a ninth of the number of flagged cells among the cell and its
  eight neighbours, cells outside the grid counting as zero.
\<close>

definition flag_value :: "flag_matrix \<Rightarrow> int \<Rightarrow> int \<Rightarrow> real" where
  "flag_value flags i j =
     (if 0 \<le> i \<and> i < int (length flags) \<and> 0 \<le> j \<and> j < int (length (flags ! nat i)) \<and>
         flags ! nat i ! nat j
      then 1 else 0)"

definition neighbourhood_average :: "flag_matrix \<Rightarrow> nat \<Rightarrow> nat \<Rightarrow> real" where
  "neighbourhood_average flags i j =
     sum_list (concat (map (\<lambda>di. map (\<lambda>dj. (1 / 9) * flag_value flags (int i + di) (int j + dj))
                                    [- 1, 0, 1])
                         [- 1, 0, 1]))"

definition convolve_mean :: "flag_matrix \<Rightarrow> matrix2" where
  "convolve_mean flags =
     map (\<lambda>i. map (\<lambda>j. neighbourhood_average flags i j) [0 ..< length (flags ! i)])
       [0 ..< length flags]"

definition apply_convective_criterion4 :: "flag_matrix \<Rightarrow> flag_matrix" where
  "apply_convective_criterion4 convective_flag_matrix =
     map2 (map2 (\<lambda>f a. f \<and> a > 1 / 9 + TOLERANCE))
       convective_flag_matrix (convolve_mean convective_flag_matrix)"

definition apply_convective_criterion5 ::
    "matrix3 \<Rightarrow> flag_matrix \<Rightarrow> real \<Rightarrow> error + flag_matrix" where
  "apply_convective_criterion5 reflectivity_matrix_dbz convective_flag_matrix
       min_composite_refl_dbz =
     (case max_over_heights reflectivity_matrix_dbz of
        Inl e \<Rightarrow> Inl e
      | Inr composite_refl_matrix_dbz \<Rightarrow>
         (case logical_and
                 (map (map (\<lambda>a. a > 0)) (convolve_mean convective_flag_matrix))
                 (geq_threshold composite_refl_matrix_dbz min_composite_refl_dbz) of
            Inl e \<Rightarrow> Inl e
          | Inr new_convective_flag_matrix \<Rightarrow>
              logical_or convective_flag_matrix new_convective_flag_matrix))"

text \<open>
  A grid from 60 degrees south to 60 degrees north, as \<open>grids.get_latlng_grid_points\<close> gives
  it for a minimum latitude of -60, a latitude spacing of 10 degrees and 13 rows.
\<close>

definition wide_grid :: grid_metadata where
  "wide_grid = \<lparr>min_grid_point_latitude_deg = - 60, latitude_spacing_deg = 10,
     min_grid_point_longitude_deg = 100, longitude_spacing_deg = 1 / 10,
     grid_point_heights_m_asl = [1000, 2000],
     grid_point_latitudes_deg = [- 60, - 50, - 40, - 30, - 20, - 10, 0, 10, 20, 30, 40, 50, 60],
     grid_point_longitudes_deg = [100, 100.1, 100.2]\<rparr>"

text \<open>
  A three-by-three grid with a spacing of a quarter of a degree and three heights, the upper
  two at and above the default maximum height for peakedness.
\<close>

definition small_grid :: grid_metadata where
  "small_grid = \<lparr>min_grid_point_latitude_deg = 20, latitude_spacing_deg = 1 / 4,
     min_grid_point_longitude_deg = 120, longitude_spacing_deg = 1 / 4,
     grid_point_heights_m_asl = [2000, 9000, 12000],
     grid_point_latitudes_deg = [20, 20.25, 20.5],
     grid_point_longitudes_deg = [120, 120.25, 120.5]\<rparr>"

text \<open>A storm in the centre of the grid with a weaker echo east of it.\<close>

definition storm_volume :: matrix3 where
  "storm_volume =
     [[[0, 0, 0], [0, 0, 0], [0, 0, 0]],
      [[0, 0, 0], [40, 50, 30], [40, 20, 0]],
      [[0, 0, 0], [0, 0, 0], [0, 0, 0]]]"

definition no_flags :: flag_matrix where
  "no_flags = [[False, False, False], [False, False, False], [False, False, False]]"

definition centre_flag :: flag_matrix where
  "centre_flag = [[False, False, False], [False, True, False], [False, False, False]]"

definition centre_and_east_flags :: flag_matrix where
  "centre_and_east_flags = [[False, False, False], [False, True, True], [False, False, False]]"

text \<open>
  Weak negative reflectivities at the two heights used for peakedness, less negative in the
  centre column, which has an echo of 30 dBZ at the top height.
\<close>

definition elevated_echo_volume :: matrix3 where
  "elevated_echo_volume =
     [[[- 20, - 20, - 20], [- 20, - 20, - 20], [- 20, - 20, - 20]],
      [[- 20, - 20, - 20], [- 1, - 1, 30], [- 20, - 20, - 20]],
      [[- 20, - 20, - 20], [- 20, - 20, - 20], [- 20, - 20, - 20]]]"

text \<open>A spline that is never called: the resolution is not halved in the examples.\<close>

definition unused_spline :: spline where
  "unused_spline x y z xq yq = z"

text \<open>The same without the echo aloft: no positive reflectivity anywhere.\<close>

definition weak_echo_volume :: matrix3 where
  "weak_echo_volume =
     [[[- 20, - 20, - 20], [- 20, - 20, - 20], [- 20, - 20, - 20]],
      [[- 20, - 20, - 20], [- 1, - 1, - 1], [- 20, - 20, - 20]],
      [[- 20, - 20, - 20], [- 20, - 20, - 20], [- 20, - 20, - 20]]]"

definition nonneg_volume :: "matrix3 \<Rightarrow> bool" where
  "nonneg_volume r \<longleftrightarrow> list_all (list_all (list_all (\<lambda>x. 0 \<le> x))) r"

text \<open>
  The heights that qualify for peakedness in criterion 1, and whether the peakedness at height
  \<open>k\<close> of column \<open>(i, j)\<close> exceeds its threshold.
\<close>

definition qualifying_heights :: "matrix3 \<Rightarrow> grid_metadata \<Rightarrow> real \<Rightarrow> matrix3" where
  "qualifying_heights r g max_peakedness_height_m_asl =
     heights_up_to r (max_height_index (grid_point_heights_m_asl g) max_peakedness_height_m_asl)"

definition exceeds_threshold :: "matrix3 \<Rightarrow> int \<Rightarrow> int \<Rightarrow> nat \<Rightarrow> nat \<Rightarrow> nat \<Rightarrow> bool" where
  "exceeds_threshold q nr nc i j k \<longleftrightarrow>
     q ! i ! j ! k - median (window_values q nr nc i j k) > peakedness_threshold (q ! i ! j ! k)"

definition passes_gate :: "real option \<Rightarrow> real list \<Rightarrow> bool" where
  "passes_gate gate col =
     (case gate of None \<Rightarrow> True | Some t \<Rightarrow> fold max (tl col) (hd col) \<ge> t)"


section \<open>Inference (neural\_net.py)\<close>

text \<open>
  A predictor matrix is a list of examples, each indexed by row, column and channel.  The
  model's \<open>predict\<close> maps a list of examples to a list of probability grids with a trailing
  channel axis.  The probabilities of one example in the result are a grid, or nothing while
  the slot still holds the not-a-number it was created with.  All examples of an array have
  one shape, so the dimensions of the result array are not modelled.
\<close>

type_synonym example = "pyfloat list list list"
type_synonym prob_grid = "pyfloat list list"

fun assert_is_boolean :: "pyval \<Rightarrow> error + unit" where
  "assert_is_boolean (BoolV b) = Inr ()"
| "assert_is_boolean v = Inl InvalidInput"

definition contains_nan :: "example list \<Rightarrow> bool" where
  "contains_nan predictor_matrix =
     list_ex (list_ex (list_ex (list_ex (\<lambda>x. x = NotANumber)))) predictor_matrix"

definition assert_is_numpy_array_without_nan :: "example list \<Rightarrow> error + unit" where
  "assert_is_numpy_array_without_nan m = (if contains_nan m then Inl InvalidInput else Inr ())"

definition check_inference_args :: "example list \<Rightarrow> pyval \<Rightarrow> pyval \<Rightarrow> error + int" where
  "check_inference_args predictor_matrix num_examples_per_batch verbose =
     (let num_examples = int (length predictor_matrix) in
      case assert_is_numpy_array_without_nan predictor_matrix of
        Inl e \<Rightarrow> Inl e
      | Inr u \<Rightarrow>
         (case (if num_examples_per_batch = NoneV then Inr ()
                else first_error [assert_is_integer num_examples_per_batch,
                                  assert_is_geq num_examples_per_batch 1]) of
            Inl e \<Rightarrow> Inl e
          | Inr u \<Rightarrow>
             (case assert_is_boolean verbose of
                Inl e \<Rightarrow> Inl e
              | Inr u \<Rightarrow>
                  Inr (min (case num_examples_per_batch of IntV b \<Rightarrow> b | _ \<Rightarrow> num_examples)
                           num_examples))))"

text \<open>\<open>range(0, n, b)\<close> for a positive step.\<close>

definition range_step :: "nat \<Rightarrow> nat \<Rightarrow> nat list" where
  "range_step n b = map (\<lambda>k. k * b) [0 ..< (n + b - 1) div b]"

text \<open>
  The indices of the chunk that starts at \<open>i\<close>: \<open>numpy.linspace\<close> from \<open>i\<close> to the last
  index of the chunk, with as many points as integers in between.
\<close>

definition these_indices :: "nat \<Rightarrow> nat \<Rightarrow> nat \<Rightarrow> nat list" where
  "these_indices num_examples num_examples_per_batch i =
     [i ..< Suc (min (i + num_examples_per_batch - 1) (num_examples - 1))]"

definition first_channel :: "example \<Rightarrow> prob_grid" where
  "first_channel p = map (map (\<lambda>channels. channels ! 0)) p"

text \<open>\<open>forecast_prob_matrix[these_indices, ...] = values\<close>, one example after the other.\<close>

definition assign_examples ::
    "prob_grid option list \<Rightarrow> nat list \<Rightarrow> prob_grid list \<Rightarrow> prob_grid option list" where
  "assign_examples forecast_prob_matrix indices values =
     fold (\<lambda>(i, v) acc. acc[i := Some v]) (zip indices values) forecast_prob_matrix"

definition apply_to_chunk ::
    "(example list \<Rightarrow> example list) \<Rightarrow> example list \<Rightarrow> nat \<Rightarrow> nat \<Rightarrow>
     prob_grid option list option \<Rightarrow> error + prob_grid option list option" where
  "apply_to_chunk predict predictor_matrix num_examples_per_batch i forecast_prob_matrix =
     (let num_examples = length predictor_matrix;
          indices = these_indices num_examples num_examples_per_batch i;
          this_prob_matrix = predict (map (\<lambda>k. predictor_matrix ! k) indices);
          matrix = (case forecast_prob_matrix of
                      None \<Rightarrow> replicate num_examples None
                    | Some m \<Rightarrow> m)
      in if length this_prob_matrix \<noteq> length indices then Inl ValueError
         else Inr (Some (assign_examples matrix indices (map first_channel this_prob_matrix))))"

fun apply_to_chunks ::
    "(example list \<Rightarrow> example list) \<Rightarrow> example list \<Rightarrow> nat \<Rightarrow> nat list \<Rightarrow>
     prob_grid option list option \<Rightarrow> error + prob_grid option list option" where
  "apply_to_chunks predict predictor_matrix b [] forecast_prob_matrix = Inr forecast_prob_matrix"
| "apply_to_chunks predict predictor_matrix b (i # starts) forecast_prob_matrix =
     (case apply_to_chunk predict predictor_matrix b i forecast_prob_matrix of
        Inl e \<Rightarrow> Inl e
      | Inr m \<Rightarrow> apply_to_chunks predict predictor_matrix b starts m)"

text \<open>
  The result is the array of forecast probabilities; it is \<open>None\<close> when the loop body never
  ran.  A step of zero, which the check returns for an array without examples, makes
  \<open>range\<close> raise.
\<close>

definition apply_model ::
    "(example list \<Rightarrow> example list) \<Rightarrow> example list \<Rightarrow> pyval \<Rightarrow> pyval \<Rightarrow>
     error + prob_grid option list option" where
  "apply_model predict predictor_matrix num_examples_per_batch verbose =
     (case check_inference_args predictor_matrix num_examples_per_batch verbose of
        Inl e \<Rightarrow> Inl e
      | Inr b \<Rightarrow>
          if b = 0 then Inl ValueError
          else apply_to_chunks predict predictor_matrix (nat b)
                 (range_step (length predictor_matrix) (nat b)) None)"

text \<open>A batch size that the check accepts: \<open>None\<close> or an integer that is at least one.\<close>

fun valid_batch_size :: "pyval \<Rightarrow> bool" where
  "valid_batch_size NoneV = True"
| "valid_batch_size (IntV b) = (b \<ge> 1)"
| "valid_batch_size v = False"

text \<open>
  The result array after the chunks that cover the first \<open>m\<close> examples, for a model that
  maps every example by \<open>f\<close>.
\<close>

definition written :: "(example \<Rightarrow> example) \<Rightarrow> example list \<Rightarrow> nat \<Rightarrow> prob_grid option list" where
  "written f X m = map (\<lambda>x. Some (first_channel (f x))) (take m X) @ replicate (length X - m) None"

text \<open>Three examples of one cell and a model that doubles the cell.\<close>

definition three_examples :: "example list" where
  "three_examples = [[[[Finite 1]]], [[[Finite 2]]], [[[Finite 3]]]]"

fun double_value :: "pyfloat \<Rightarrow> pyfloat" where
  "double_value (Finite x) = Finite (2 * x)"
| "double_value v = v"

definition doubling_model :: "example list \<Rightarrow> example list" where
  "doubling_model xs = map (map (map (map double_value))) xs"


section \<open>Stand-alone pooling (standalone\_utils.py)\<close>

text \<open>
  A feature matrix holds reals here: it is free of not-a-number by its type, so the check for
  not-a-number has no failing branch, and the cast to 32-bit floats of the backend is left out.
  The flag \<open>do_max_pooling\<close> is a Boolean by its type.  A cell is the list of the channel
  values at one place.
\<close>

type_synonym cell = "real list"

text \<open>The windows of \<open>w\<close> consecutive elements, one after the other; a rest is dropped.\<close>

definition blocks :: "nat \<Rightarrow> 'a list \<Rightarrow> 'a list list" where
  "blocks w xs = map (\<lambda>a. take w (drop (a * w) xs)) [0 ..< length xs div w]"

text \<open>The maximum or the mean of the cells of one window, channel by channel.\<close>

definition pool_cells :: "bool \<Rightarrow> cell list \<Rightarrow> cell" where
  "pool_cells do_max_pooling cells =
     map (\<lambda>c. let vs = map (\<lambda>cell. cell ! c) cells in
               if do_max_pooling then fold max (tl vs) (hd vs)
               else sum_list vs / real (length vs))
       [0 ..< length (hd cells)]"

text \<open>
  \<open>K.pool2d\<close> of the backend on one example (rows by columns by channels) with pool size and
  strides \<open>(w, w)\<close>, valid padding and channels last.
\<close>

definition pool2d :: "bool \<Rightarrow> nat \<Rightarrow> cell list list \<Rightarrow> cell list list" where
  "pool2d do_max_pooling w x =
     map (\<lambda>row_block.
            map (\<lambda>b. pool_cells do_max_pooling
                        (concat (map (\<lambda>row. take w (drop (b * w) row)) row_block)))
              [0 ..< length (hd row_block) div w])
       (blocks w x)"

definition do_2d_pooling ::
    "cell list list list \<Rightarrow> bool \<Rightarrow> int \<Rightarrow> error + cell list list list" where
  "do_2d_pooling feature_matrix do_max_pooling window_size_px =
     (if window_size_px < 2 then Inl InvalidInput
      else Inr (map (pool2d do_max_pooling (nat window_size_px)) feature_matrix))"

definition do_1d_pooling :: "cell list list \<Rightarrow> bool \<Rightarrow> int \<Rightarrow> error + cell list list" where
  "do_1d_pooling feature_matrix do_max_pooling window_size_px =
     (if window_size_px < 2 then Inl InvalidInput
      else
        case do_2d_pooling
               (map (map (\<lambda>cell. replicate (nat window_size_px) cell)) feature_matrix)
               do_max_pooling window_size_px of
          Inl e \<Rightarrow> Inl e
        | Inr pooled \<Rightarrow> Inr (map (map (\<lambda>columns. columns ! 0)) pooled))"




section \<open>CoordConv channels (coord\_conv.py)\<close>









subsection \<open>The coordinate matrices before the cast\<close>



subsection \<open>Checks of the dimensions in test mode\<close>




subsection \<open>The two functions, in test mode\<close>






section \<open>Fractions skill score (custom\_losses.py)\<close>

subsection \<open>Floating-point arithmetic\<close>

text \<open>
  The backend computes the loss in floating point (32 bits unless configured otherwise), and
  numpy computes the weight of the filter in 64 bits.  A format is given by the rounding of a
  real number to the format, exponent unbounded above, and by its largest finite number: a
  result that rounds beyond it is infinite.  A small result may round to zero.  The two
  zeros of a format are not told apart.
\<close>

record float_format =
  nearest :: "real \<Rightarrow> real"
  largest_finite :: real

definition fl :: "float_format \<Rightarrow> real \<Rightarrow> pyfloat" where
  "fl fmt x =
     (let y = nearest fmt x
      in if y > largest_finite fmt then PlusInfinity
         else if y < - largest_finite fmt then MinusInfinity
         else Finite y)"

fun is_finite :: "pyfloat \<Rightarrow> bool" where
  "is_finite (Finite x) = True"
| "is_finite a = False"

fun fl_negate :: "pyfloat \<Rightarrow> pyfloat" where
  "fl_negate (Finite x) = Finite (- x)"
| "fl_negate PlusInfinity = MinusInfinity"
| "fl_negate MinusInfinity = PlusInfinity"
| "fl_negate NotANumber = NotANumber"

fun sign_of :: "pyfloat \<Rightarrow> int" where
  "sign_of (Finite x) = (if x > 0 then 1 else if x < 0 then - 1 else 0)"
| "sign_of PlusInfinity = 1"
| "sign_of MinusInfinity = - 1"
| "sign_of NotANumber = 0"

fun fl_add :: "float_format \<Rightarrow> pyfloat \<Rightarrow> pyfloat \<Rightarrow> pyfloat" where
  "fl_add fmt (Finite x) (Finite y) = fl fmt (x + y)"
| "fl_add fmt NotANumber b = NotANumber"
| "fl_add fmt a NotANumber = NotANumber"
| "fl_add fmt PlusInfinity MinusInfinity = NotANumber"
| "fl_add fmt MinusInfinity PlusInfinity = NotANumber"
| "fl_add fmt PlusInfinity b = PlusInfinity"
| "fl_add fmt MinusInfinity b = MinusInfinity"
| "fl_add fmt (Finite x) b = b"

definition fl_sub :: "float_format \<Rightarrow> pyfloat \<Rightarrow> pyfloat \<Rightarrow> pyfloat" where
  "fl_sub fmt a b = fl_add fmt a (fl_negate b)"

fun fl_mul :: "float_format \<Rightarrow> pyfloat \<Rightarrow> pyfloat \<Rightarrow> pyfloat" where
  "fl_mul fmt (Finite x) (Finite y) = fl fmt (x * y)"
| "fl_mul fmt NotANumber b = NotANumber"
| "fl_mul fmt a NotANumber = NotANumber"
| "fl_mul fmt a b =
     (if sign_of a * sign_of b = 0 then NotANumber
      else if sign_of a * sign_of b > 0 then PlusInfinity else MinusInfinity)"

fun fl_div :: "float_format \<Rightarrow> pyfloat \<Rightarrow> pyfloat \<Rightarrow> pyfloat" where
  "fl_div fmt (Finite x) (Finite y) =
     (if y = 0 then (if x = 0 then NotANumber else if x > 0 then PlusInfinity else MinusInfinity)
      else fl fmt (x / y))"
| "fl_div fmt NotANumber b = NotANumber"
| "fl_div fmt a NotANumber = NotANumber"
| "fl_div fmt (Finite x) b = Finite 0"
| "fl_div fmt a (Finite y) = (if y < 0 then fl_negate a else a)"
| "fl_div fmt a b = NotANumber"

text \<open>A sum of floats, one addition after the other.\<close>

definition fl_sum :: "float_format \<Rightarrow> pyfloat list \<Rightarrow> pyfloat" where
  "fl_sum fmt vs = fold (\<lambda>v acc. fl_add fmt acc v) vs (Finite 0)"

subsection \<open>The binary formats\<close>

text \<open>
  Rounding to the nearest number with \<open>p\<close> significant bits and exponents from \<open>emin\<close> to
  \<open>emax\<close>, ties to the even significand.  The exponent of \<open>x\<close> is the largest \<open>e\<close> in that
  range with \<open>2\<^sup>e \<le> \<bar>x\<bar>\<close> (\<open>emin\<close> for smaller numbers, which round to multiples of the
  smallest spacing).
\<close>

definition round_half_even :: "real \<Rightarrow> int" where
  "round_half_even y =
     (let f = \<lfloor>y\<rfloor>; d = y - of_int f
      in if d < 1 / 2 then f else if d > 1 / 2 then f + 1 else if even f then f else f + 1)"

function exponent_search :: "int \<Rightarrow> int \<Rightarrow> real \<Rightarrow> int" where
  "exponent_search lo hi x =
     (if hi \<le> lo + 1 then lo
      else if power_int 2 ((lo + hi) div 2) \<le> x then exponent_search ((lo + hi) div 2) hi x
      else exponent_search lo ((lo + hi) div 2) x)"
  by pat_completeness auto

termination
  by (relation "measure (\<lambda>(lo, hi, x). nat (hi - lo))") auto

declare exponent_search.simps [simp del]

definition binary_exponent :: "int \<Rightarrow> int \<Rightarrow> real \<Rightarrow> int" where
  "binary_exponent emin emax x =
     (if \<bar>x\<bar> < power_int 2 emin then emin else exponent_search emin (emax + 1) \<bar>x\<bar>)"

definition round_binary :: "nat \<Rightarrow> int \<Rightarrow> int \<Rightarrow> real \<Rightarrow> real" where
  "round_binary p emin emax x =
     (let spacing = power_int 2 (binary_exponent emin emax x - int p + 1)
      in of_int (round_half_even (x / spacing)) * spacing)"

definition binary32 :: float_format where
  "binary32 =
     \<lparr>nearest = round_binary 24 (- 126) 127, largest_finite = (2 - 1 / 2 ^ 23) * 2 ^ 127\<rparr>"

definition binary64 :: float_format where
  "binary64 =
     \<lparr>nearest = round_binary 53 (- 1022) 1023, largest_finite = (2 - 1 / 2 ^ 52) * 2 ^ 1023\<rparr>"

subsection \<open>The loss\<close>

text \<open>
  A tensor is indexed by example, row and column; the source handles one channel only, and
  the channel axis is left out.  The two modules that define \<open>fractions_skill_score\<close>
  compute the same loss.
\<close>

type_synonym tensor = "pyfloat list list list"

text \<open>The filter of numpy: the weight is the quotient as Python computes it.\<close>

definition create_mean_filter :: "float_format \<Rightarrow> int \<Rightarrow> int \<Rightarrow> int \<Rightarrow> error + real list list" where
  "create_mean_filter python_floats half_num_rows half_num_columns num_channels =
     (case first_error
        [assert_is_integer (IntV half_num_rows), assert_is_geq (IntV half_num_rows) 0,
         assert_is_integer (IntV half_num_columns), assert_is_geq (IntV half_num_columns) 0,
         assert_is_integer (IntV num_channels), assert_is_greater (IntV num_channels) 0]
      of Inl e \<Rightarrow> Inl e
       | Inr u \<Rightarrow>
          (let num_rows = 2 * half_num_rows + 1;
               num_columns = 2 * half_num_columns + 1;
               weight = nearest python_floats (1 / of_int (num_rows * num_columns))
           in Inr (replicate (nat num_rows) (replicate (nat num_columns) weight))))"

text \<open>
  \<open>K.conv2d\<close> of the backend on one example with strides \<open>(1, 1)\<close>: the weights are cast to
  the format of the backend, and every output cell is the sum of the products of the weights
  with the cells under the kernel.  With valid padding the kernel stays inside the grid, and
  a grid more than one cell too short for the kernel raises; with same padding the grid is
  padded with zeros around and keeps its size.
\<close>

definition num_columns_of :: "'a list list \<Rightarrow> nat" where
  "num_columns_of x = (case x of [] \<Rightarrow> 0 | row # rows \<Rightarrow> length row)"

definition padded_cell :: "pyfloat list list \<Rightarrow> int \<Rightarrow> int \<Rightarrow> pyfloat" where
  "padded_cell x i j =
     (if 0 \<le> i \<and> i < int (length x) \<and> 0 \<le> j \<and> j < int (length (x ! nat i))
      then x ! nat i ! nat j else Finite 0)"

definition kernel_sum ::
    "float_format \<Rightarrow> real list list \<Rightarrow> pyfloat list list \<Rightarrow> int \<Rightarrow> int \<Rightarrow> pyfloat" where
  "kernel_sum fmt kernel_matrix x i j =
     fl_sum fmt
       (concat (map (\<lambda>a. map (\<lambda>b. fl_mul fmt (fl fmt (kernel_matrix ! a ! b))
                                       (padded_cell x (i + int a) (j + int b)))
                            [0 ..< num_columns_of kernel_matrix])
                  [0 ..< length kernel_matrix]))"

definition conv2d_one ::
    "float_format \<Rightarrow> bool \<Rightarrow> real list list \<Rightarrow> pyfloat list list \<Rightarrow> error + pyfloat list list" where
  "conv2d_one fmt same_padding kernel_matrix x =
     (let m = length x; n = num_columns_of x;
          kr = length kernel_matrix; kc = num_columns_of kernel_matrix
      in if same_padding then
           Inr (map (\<lambda>i. map (\<lambda>j. kernel_sum fmt kernel_matrix x (int i - int ((kr - 1) div 2))
                                                        (int j - int ((kc - 1) div 2)))
                          [0 ..< n]) [0 ..< m])
         else if m + 1 < kr \<or> n + 1 < kc then Inl ValueError
         else Inr (map (\<lambda>i. map (\<lambda>j. kernel_sum fmt kernel_matrix x (int i) (int j))
                              [0 ..< n + 1 - kc]) [0 ..< m + 1 - kr]))"

fun conv2d :: "float_format \<Rightarrow> bool \<Rightarrow> real list list \<Rightarrow> tensor \<Rightarrow> error + tensor" where
  "conv2d fmt same_padding kernel_matrix [] = Inr []"
| "conv2d fmt same_padding kernel_matrix (x # xs) =
     (case conv2d_one fmt same_padding kernel_matrix x of
        Inl e \<Rightarrow> Inl e
      | Inr y \<Rightarrow> (case conv2d fmt same_padding kernel_matrix xs of
                     Inl e \<Rightarrow> Inl e
                   | Inr ys \<Rightarrow> Inr (y # ys)))"

text \<open>
  \<open>K.mean\<close> over all entries: their sum divided by their number; not-a-number for a tensor
  without entries.
\<close>

definition K_mean :: "float_format \<Rightarrow> tensor \<Rightarrow> pyfloat" where
  "K_mean fmt t =
     (let values = concat (concat t)
      in fl_div fmt (fl_sum fmt values) (fl fmt (real (length values))))"

text \<open>
  The smoothed field of one tensor: the mean filter of side \<open>2 k + 1\<close>, with same padding in
  test mode and valid padding otherwise.
\<close>

definition smoothed_field ::
    "float_format \<Rightarrow> float_format \<Rightarrow> int \<Rightarrow> bool \<Rightarrow> tensor \<Rightarrow> error + tensor" where
  "smoothed_field python_floats fmt half_window_size_px test_mode t =
     (case create_mean_filter python_floats half_window_size_px half_window_size_px 1 of
        Inl e \<Rightarrow> Inl e
      | Inr weight_matrix \<Rightarrow> conv2d fmt test_mode weight_matrix t)"

text \<open>The two mean squared errors of the loss, from the two smoothed fields.\<close>

definition squared_difference :: "float_format \<Rightarrow> pyfloat \<Rightarrow> pyfloat \<Rightarrow> pyfloat" where
  "squared_difference fmt a b = (let d = fl_sub fmt a b in fl_mul fmt d d)"

definition sum_of_squares :: "float_format \<Rightarrow> pyfloat \<Rightarrow> pyfloat \<Rightarrow> pyfloat" where
  "sum_of_squares fmt a b = fl_add fmt (fl_mul fmt a a) (fl_mul fmt b b)"

definition actual_mse :: "float_format \<Rightarrow> tensor \<Rightarrow> tensor \<Rightarrow> pyfloat" where
  "actual_mse fmt smoothed_target_tensor smoothed_prediction_tensor =
     K_mean fmt (map2 (map2 (map2 (squared_difference fmt)))
                   smoothed_target_tensor smoothed_prediction_tensor)"

definition reference_mse :: "float_format \<Rightarrow> tensor \<Rightarrow> tensor \<Rightarrow> pyfloat" where
  "reference_mse fmt smoothed_target_tensor smoothed_prediction_tensor =
     K_mean fmt (map2 (map2 (map2 (sum_of_squares fmt)))
                   smoothed_target_tensor smoothed_prediction_tensor)"

text \<open>
  \<open>fractions_skill_score(half_window_size_px, use_as_loss_function, test_mode)\<close> applied to
  a target and a prediction tensor.  The two smoothed fields are taken to have one shape, and
  the backend to be deterministic.
\<close>

definition fractions_skill_score ::
    "float_format \<Rightarrow> float_format \<Rightarrow> int \<Rightarrow> bool \<Rightarrow> bool \<Rightarrow> tensor \<Rightarrow> tensor \<Rightarrow> error + pyfloat" where
  "fractions_skill_score python_floats fmt half_window_size_px use_as_loss_function test_mode
       target_tensor prediction_tensor =
     (case smoothed_field python_floats fmt half_window_size_px test_mode target_tensor of
        Inl e \<Rightarrow> Inl e
      | Inr smoothed_target_tensor \<Rightarrow>
         (case smoothed_field python_floats fmt half_window_size_px test_mode
                 prediction_tensor of
            Inl e \<Rightarrow> Inl e
          | Inr smoothed_prediction_tensor \<Rightarrow>
             (let quotient = fl_div fmt
                    (actual_mse fmt smoothed_target_tensor smoothed_prediction_tensor)
                    (reference_mse fmt smoothed_target_tensor smoothed_prediction_tensor)
              in if use_as_loss_function then Inr quotient
                 else Inr (fl_sub fmt (Finite 1) quotient))))"

text \<open>
  A target without any event, one with two events, a single cell with an event, and a
  single cell whose value is so small that its square is below the smallest number of the
  32-bit format.
\<close>

definition no_event_tensor :: tensor where
  "no_event_tensor = map (map (map Finite)) [[[0, 0, 0], [0, 0, 0], [0, 0, 0]]]"

definition two_event_tensor :: tensor where
  "two_event_tensor = map (map (map Finite)) [[[1, 0, 0], [0, 0, 0], [0, 0, 1]]]"

definition one_event_tensor :: tensor where
  "one_event_tensor = [[[Finite 1]]]"

definition tiny_tensor :: tensor where
  "tiny_tensor = [[[Finite (1 / 2 ^ 80)]]]"

text \<open>
  Whether all entries of a field are finite, and whether a float is a number other than zero.
\<close>

definition all_finite :: "tensor \<Rightarrow> bool" where
  "all_finite s = list_all (list_all (list_all is_finite)) s"

fun is_nonzero_number :: "pyfloat \<Rightarrow> bool" where
  "is_nonzero_number (Finite x) = (x \<noteq> 0)"
| "is_nonzero_number NotANumber = False"
| "is_nonzero_number a = True"


section \<open>Spatial downsampling of examples (example\_io\_test.py)\<close>

text \<open>
  The dictionaries of the unit test.  Brightness temperatures are indexed by example, row,
  column and band; composite reflectivities by example, row and column.
\<close>

record satellite_dict =
  brightness_temp_kelvins :: "cell list list list option"
  brightness_counts :: "cell list list list option"
  sat_latitudes_deg_n :: "real list"
  sat_longitudes_deg_e :: "real list"
  sat_valid_times_unix_sec :: "int list"
  band_numbers :: "int list"

record radar_dict =
  composite_refl_dbz :: "real list list list"
  radar_valid_times_unix_sec :: "int list"
  radar_latitudes_deg_n :: "real list"
  radar_longitudes_deg_e :: "real list"

text \<open>
  \<open>numpy.stack\<close> of the two bands along the last axis, band 9 being band 8 minus ten, and
  of four examples that differ by a constant.
\<close>

definition stack_bands :: "real list list \<Rightarrow> cell list list" where
  "stack_bands band8 = map (map (\<lambda>v. [v, v - 10])) band8"

definition stack_examples :: "cell list list \<Rightarrow> cell list list list" where
  "stack_examples example1 =
     map (\<lambda>offset. map (map (map (\<lambda>v. v + offset))) example1) [0, 2.5, 5, 7.5]"

definition stack_refl_examples :: "real list list \<Rightarrow> real list list list" where
  "stack_refl_examples example1 = map (\<lambda>offset. map (map (\<lambda>v. v + offset)) example1) [0, 1, 2, 3]"

definition TEMP_MATRIX_BAND8_EXAMPLE1_KELVINS :: "real list list" where
  "TEMP_MATRIX_BAND8_EXAMPLE1_KELVINS =
     [[200, 210, 220, 230],
      [210, 220, 230, 240],
      [220, 230, 240, 250],
      [230, 240, 250, 260],
      [250, 260, 270, 280],
      [290, 300, 310, 320]]"

definition REFL_MATRIX_EXAMPLE1_DBZ :: "real list list" where
  "REFL_MATRIX_EXAMPLE1_DBZ =
     [[10, 20, 30, 40],
      [20, 30, 40, 50],
      [30, 40, 50, 60],
      [40, 50, 60, 70],
      [50, 60, 70, 80],
      [60, 40, 20, 0]]"

definition LATITUDES_DEG_N :: "real list" where
  "LATITUDES_DEG_N = [53, 53.2, 53.4, 53.6, 53.8, 54]"

definition LONGITUDES_DEG_E :: "real list" where
  "LONGITUDES_DEG_E = [246, 246.5, 247, 247.5]"

definition VALID_TIMES_UNIX_SEC :: "int list" where
  "VALID_TIMES_UNIX_SEC = [0, 1, 2, 3]"

definition BAND_NUMBERS :: "int list" where
  "BAND_NUMBERS = [8, 9]"

definition make_satellite_dict :: "real list list \<Rightarrow> real list \<Rightarrow> real list \<Rightarrow> satellite_dict" where
  "make_satellite_dict band8 lats lons =
     \<lparr>brightness_temp_kelvins = Some (stack_examples (stack_bands band8)),
      brightness_counts = None,
      sat_latitudes_deg_n = lats, sat_longitudes_deg_e = lons,
      sat_valid_times_unix_sec = VALID_TIMES_UNIX_SEC, band_numbers = BAND_NUMBERS\<rparr>"

definition make_radar_dict :: "real list list \<Rightarrow> real list \<Rightarrow> real list \<Rightarrow> radar_dict" where
  "make_radar_dict refl_matrix lats lons =
     \<lparr>composite_refl_dbz = stack_refl_examples refl_matrix,
      radar_valid_times_unix_sec = VALID_TIMES_UNIX_SEC,
      radar_latitudes_deg_n = lats, radar_longitudes_deg_e = lons\<rparr>"

definition SATELLITE_DICT :: satellite_dict where
  "SATELLITE_DICT =
     make_satellite_dict TEMP_MATRIX_BAND8_EXAMPLE1_KELVINS LATITUDES_DEG_N LONGITUDES_DEG_E"

definition RADAR_DICT :: radar_dict where
  "RADAR_DICT = make_radar_dict REFL_MATRIX_EXAMPLE1_DBZ LATITUDES_DEG_N LONGITUDES_DEG_E"

text \<open>The results that the test expects for the factors 2 and 4.\<close>

definition SATELLITE_DICT_DOWNSAMPLED2 :: satellite_dict where
  "SATELLITE_DICT_DOWNSAMPLED2 =
     make_satellite_dict [[210, 230], [230, 250], [275, 295]] [53.1, 53.5, 53.9] [246.25, 247.25]"

definition RADAR_DICT_DOWNSAMPLED2 :: radar_dict where
  "RADAR_DICT_DOWNSAMPLED2 =
     make_radar_dict [[30, 50], [50, 70], [60, 80]] [53.1, 53.5, 53.9] [246.25, 247.25]"

definition SATELLITE_DICT_DOWNSAMPLED4 :: satellite_dict where
  "SATELLITE_DICT_DOWNSAMPLED4 = make_satellite_dict [[230]] [53.3] [246.75]"

definition RADAR_DICT_DOWNSAMPLED4 :: radar_dict where
  "RADAR_DICT_DOWNSAMPLED4 = make_radar_dict [[70]] [53.3] [246.75]"

text \<open>
  Modelled from the spec: \<open>example_io.downsample_data_in_space\<close> is not among the sources;
  only its unit test is.  The specification says that it reduces both grids by blocks of
  \<open>factor\<close> by \<open>factor\<close> cells, "by averaging (or equivalent)", and that the test results
  are exact.  The expected values of the test fix the rest: brightness values are averaged,
  reflectivities take the maximum of the block, coordinates are averaged when
  \<open>change_coordinates\<close> is set, and rows and columns that do not fill a block are dropped.
  This is what the pooling functions of \<open>standalone_utils\<close> compute, which the model uses.
\<close>

definition pool_coordinates :: "real list \<Rightarrow> int \<Rightarrow> error + real list" where
  "pool_coordinates coords downsampling_factor =
     (case do_1d_pooling [map (\<lambda>v. [v]) coords] False downsampling_factor of
        Inl e \<Rightarrow> Inl e
      | Inr pooled \<Rightarrow> Inr (map (\<lambda>c. c ! 0) (pooled ! 0)))"

definition pool_optional ::
    "cell list list list option \<Rightarrow> int \<Rightarrow> error + cell list list list option" where
  "pool_optional matrix downsampling_factor =
     (case matrix of
        None \<Rightarrow> Inr None
      | Some m \<Rightarrow> (case do_2d_pooling m False downsampling_factor of
                     Inl e \<Rightarrow> Inl e
                   | Inr p \<Rightarrow> Inr (Some p)))"

definition downsample_data_in_space ::
    "satellite_dict \<Rightarrow> radar_dict \<Rightarrow> int \<Rightarrow> bool \<Rightarrow> error + satellite_dict \<times> radar_dict" where
  "downsample_data_in_space sat radar downsampling_factor change_coordinates =
     (case pool_optional (brightness_temp_kelvins sat) downsampling_factor of
        Inl e \<Rightarrow> Inl e
      | Inr temps \<Rightarrow>
     (case pool_optional (brightness_counts sat) downsampling_factor of
        Inl e \<Rightarrow> Inl e
      | Inr counts \<Rightarrow>
     (case do_2d_pooling (map (map (map (\<lambda>v. [v]))) (composite_refl_dbz radar)) True
             downsampling_factor of
        Inl e \<Rightarrow> Inl e
      | Inr pooled_refl \<Rightarrow>
     (case pool_coordinates (sat_latitudes_deg_n sat) downsampling_factor of
        Inl e \<Rightarrow> Inl e
      | Inr lats \<Rightarrow>
     (case pool_coordinates (sat_longitudes_deg_e sat) downsampling_factor of
        Inl e \<Rightarrow> Inl e
      | Inr lons \<Rightarrow>
          Inr (sat\<lparr>brightness_temp_kelvins := temps, brightness_counts := counts,
                   sat_latitudes_deg_n :=
                     (if change_coordinates then lats else sat_latitudes_deg_n sat),
                   sat_longitudes_deg_e :=
                     (if change_coordinates then lons else sat_longitudes_deg_e sat)\<rparr>,
               radar\<lparr>composite_refl_dbz := map (map (map (\<lambda>c. c ! 0))) pooled_refl,
                     radar_latitudes_deg_n :=
                       (if change_coordinates then lats else radar_latitudes_deg_n radar),
                     radar_longitudes_deg_e :=
                       (if change_coordinates then lons else radar_longitudes_deg_e radar)\<rparr>))))))"

subsection \<open>The wording of the claim\<close>

definition mean :: "real list \<Rightarrow> real" where
  "mean xs = sum_list xs / real (length xs)"

definition maximum :: "real list \<Rightarrow> real" where
  "maximum xs = fold max (tl xs) (hd xs)"

text \<open>The cells of block \<open>(a, b)\<close> of side \<open>f\<close>, and one value per block of a grid.\<close>

definition block_cells :: "nat \<Rightarrow> nat \<Rightarrow> nat \<Rightarrow> 'a list list \<Rightarrow> 'a list" where
  "block_cells f a b grid = concat (map (\<lambda>row. take f (drop (b * f) row)) (take f (drop (a * f) grid)))"

definition per_block :: "(real list \<Rightarrow> real) \<Rightarrow> nat \<Rightarrow> real list list \<Rightarrow> real list list" where
  "per_block reduce f grid =
     map (\<lambda>a. map (\<lambda>b. reduce (block_cells f a b grid)) [0 ..< num_columns_of grid div f])
       [0 ..< length grid div f]"

definition midpoints :: "nat \<Rightarrow> real list \<Rightarrow> real list" where
  "midpoints f coords = map mean (blocks f coords)"

definition band :: "nat \<Rightarrow> cell list list \<Rightarrow> real list list" where
  "band k x = map (map (\<lambda>c. c ! k)) x"

definition the_temps :: "satellite_dict \<Rightarrow> cell list list list" where
  "the_temps sat = (case brightness_temp_kelvins sat of None \<Rightarrow> [] | Some m \<Rightarrow> m)"


section \<open>Reading the inputs of one day (neural\_net.py)\<close>

text \<open>
  The dictionaries of pre-processed examples: a predictor file holds up to three versions of
  the predictor matrix (example by row by column by band), a target file the target matrix
  (example by row by column).  Satellite and radar dictionaries are as above.
\<close>

record predictor_dict =
  predictor_matrix_unnorm :: "cell list list list option"
  predictor_matrix_norm :: "cell list list list option"
  predictor_matrix_unif_norm :: "cell list list list option"
  predictor_valid_times_unix_sec :: "int list"
  predictor_latitudes_deg_n :: "real list"
  predictor_longitudes_deg_e :: "real list"
  predictor_band_numbers :: "int list"

record target_dict =
  target_matrix_of_file :: "int list list list"
  target_valid_times_unix_sec :: "int list"
  target_latitudes_deg_n :: "real list"
  target_longitudes_deg_e :: "real list"

text \<open>The dictionary that both readers return.\<close>

record data_dict =
  predictor_matrix_key :: "cell list list list option"
  target_matrix_key :: "int list list list list"
  valid_times_key :: "int list"
  latitudes_key :: "real list option"
  longitudes_key :: "real list option"

text \<open>Sequencing of calls that may raise.\<close>

definition and_then :: "error + 'a \<Rightarrow> ('a \<Rightarrow> error + 'b) \<Rightarrow> error + 'b" where
  "and_then r f = (case r of Inl e \<Rightarrow> Inl e | Inr x \<Rightarrow> f x)"

fun traverse :: "('a \<Rightarrow> error + 'b) \<Rightarrow> 'a list \<Rightarrow> error + 'b list" where
  "traverse f [] = Inr []"
| "traverse f (x # xs) =
     (case f x of
        Inl e \<Rightarrow> Inl e
      | Inr y \<Rightarrow> (case traverse f xs of Inl e \<Rightarrow> Inl e | Inr ys \<Rightarrow> Inr (y # ys)))"

text \<open>\<open>list.index\<close>: the first position of a value, a ValueError when it is absent.\<close>

fun list_index :: "'a list \<Rightarrow> 'a \<Rightarrow> error + nat" where
  "list_index [] v = Inl ValueError"
| "list_index (x # xs) v =
     (if x = v then Inr 0
      else case list_index xs v of Inl e \<Rightarrow> Inl e | Inr i \<Rightarrow> Inr (Suc i))"

text \<open>
  \<open>file_names[index - 1]\<close>: for \<open>index = 0\<close> the subscript is \<open>-1\<close>, which in Python is the last
  element.
\<close>

definition item_before :: "'a list \<Rightarrow> nat \<Rightarrow> 'a" where
  "item_before xs index = (if index = 0 then last xs else xs ! (index - 1))"

text \<open>
  \<open>assert numpy.allclose(a, b, atol=TOLERANCE)\<close> for two vectors, with the default relative
  tolerance; a vector of length one is broadcast, other lengths that differ raise.
\<close>

definition is_close :: "real \<Rightarrow> real \<Rightarrow> bool" where
  "is_close a b = (\<bar>a - b\<bar> \<le> TOLERANCE + \<bar>b\<bar> / 100000)"

definition assert_allclose :: "real list \<Rightarrow> real list \<Rightarrow> error + unit" where
  "assert_allclose a b =
     (if length a = length b then
        (if list_all (\<lambda>p. is_close (fst p) (snd p)) (zip a b) then Inr () else Inl AssertionError)
      else if length a = 1 then
        (if list_all (\<lambda>y. is_close (a ! 0) y) b then Inr () else Inl AssertionError)
      else if length b = 1 then
        (if list_all (\<lambda>x. is_close x (b ! 0)) a then Inr () else Inl AssertionError)
      else Inl ValueError)"

text \<open>
  The valid times of the target side whose initialisation time, \<open>lead_time_seconds\<close>
  earlier, is a time of the predictor side, with those initialisation times; \<open>None\<close> when
  there is none.  Both readers hold the same lines for this.
\<close>

definition good_times :: "int list \<Rightarrow> int \<Rightarrow> int list \<Rightarrow> (int list \<times> int list) option" where
  "good_times valid_times_unix_sec lead_time_seconds predictor_times =
     (let init_times_unix_sec = map (\<lambda>t. t - lead_time_seconds) valid_times_unix_sec;
          good_flags = map (\<lambda>t. t \<in> set predictor_times) init_times_unix_sec
      in if \<not> list_ex (\<lambda>f. f) good_flags then None
         else
           let good_indices = filter (\<lambda>i. good_flags ! i) [0 ..< length good_flags]
           in Some (map (\<lambda>i. valid_times_unix_sec ! i) good_indices,
                    map (\<lambda>i. init_times_unix_sec ! i) good_indices))"

definition threshold_targets :: "real \<Rightarrow> real list list list \<Rightarrow> int list list list list" where
  "threshold_targets reflectivity_threshold_dbz composite_refl_matrix =
     map (map (map (\<lambda>v. [if v \<ge> reflectivity_threshold_dbz then 1 else 0]))) composite_refl_matrix"

subsection \<open>The raw pathway\<close>

text \<open>
  The functions of \<open>radar_io\<close>, \<open>satellite_io\<close>, \<open>example_io\<close> and \<open>normalization\<close> that
  the reader calls are not among the sources, and \<open>numpy.random.choice\<close> is random: they are
  parameters of the model.  A function that returns a tuple is represented by the component
  that the reader takes.
\<close>

record 'n raw_helpers =
  radar_io_file_name_to_date :: "string \<Rightarrow> error + string"
  radar_io_read_2d_file :: "string \<Rightarrow> error + radar_dict"
  radar_io_subset_by_time :: "radar_dict \<Rightarrow> int list \<Rightarrow> error + radar_dict"
  radar_io_subset_by_index :: "radar_dict \<Rightarrow> nat list \<Rightarrow> error + radar_dict"
  satellite_io_file_name_to_date :: "string \<Rightarrow> error + string"
  satellite_io_read_file :: "string \<Rightarrow> bool \<Rightarrow> bool \<Rightarrow> error + satellite_dict"
  satellite_io_subset_by_band :: "satellite_dict \<Rightarrow> int list \<Rightarrow> error + satellite_dict"
  satellite_io_concat_data :: "satellite_dict list \<Rightarrow> error + satellite_dict"
  satellite_io_subset_by_time :: "satellite_dict \<Rightarrow> int list \<Rightarrow> error + satellite_dict"
  satellite_io_subset_by_index :: "satellite_dict \<Rightarrow> nat list \<Rightarrow> error + satellite_dict"
  example_io_downsample_data_in_space ::
    "satellite_dict \<Rightarrow> radar_dict \<Rightarrow> int \<Rightarrow> bool \<Rightarrow> error + satellite_dict \<times> radar_dict"
  normalization_normalize_data :: "satellite_dict \<Rightarrow> bool \<Rightarrow> 'n \<Rightarrow> error + satellite_dict"
  raw_random_choice :: "nat list \<Rightarrow> int \<Rightarrow> error + nat list"

text \<open>The part of the reader from the alignment of the times on.\<close>

definition raw_examples ::
    "'n raw_helpers \<Rightarrow> radar_dict \<Rightarrow> satellite_dict \<Rightarrow> 'n option \<Rightarrow> bool \<Rightarrow> int \<Rightarrow> real \<Rightarrow>
     int \<Rightarrow> int \<Rightarrow> bool \<Rightarrow> error + data_dict option" where
  "raw_examples h radar_dict0 satellite_dict0 norm_dict_for_count uniformize lead_time_seconds
     reflectivity_threshold_dbz spatial_downsampling_factor num_examples_to_read return_coords =
     (case good_times (radar_valid_times_unix_sec radar_dict0) lead_time_seconds
             (sat_valid_times_unix_sec satellite_dict0) of
        None \<Rightarrow> Inr None
      | Some (valid_times_unix_sec, init_times_unix_sec) \<Rightarrow>
          and_then (radar_io_subset_by_time h radar_dict0 valid_times_unix_sec) (\<lambda>radar_dict1.
          and_then (satellite_io_subset_by_time h satellite_dict0 init_times_unix_sec)
            (\<lambda>satellite_dict1.
          let num_examples = length valid_times_unix_sec in
          and_then
            (if int num_examples \<ge> num_examples_to_read then
               and_then (raw_random_choice h [0 ..< num_examples] num_examples_to_read)
                 (\<lambda>desired_indices.
               and_then (radar_io_subset_by_index h radar_dict1 desired_indices) (\<lambda>r.
               and_then (satellite_io_subset_by_index h satellite_dict1 desired_indices) (\<lambda>s.
               Inr (s, r))))
             else Inr (satellite_dict1, radar_dict1)) (\<lambda>(satellite_dict2, radar_dict2).
          and_then
            (if spatial_downsampling_factor > 1 then
               example_io_downsample_data_in_space h satellite_dict2 radar_dict2
                 spatial_downsampling_factor return_coords
             else Inr (satellite_dict2, radar_dict2)) (\<lambda>(satellite_dict3, radar_dict3).
          and_then
            (case norm_dict_for_count of
               None \<Rightarrow> Inr satellite_dict3
             | Some n \<Rightarrow> normalization_normalize_data h satellite_dict3 uniformize n)
            (\<lambda>satellite_dict4.
          Inr (Some
            \<lparr>predictor_matrix_key = brightness_counts satellite_dict4,
             target_matrix_key =
               threshold_targets reflectivity_threshold_dbz (composite_refl_dbz radar_dict3),
             valid_times_key = valid_times_unix_sec,
             latitudes_key =
               (if return_coords then Some (radar_latitudes_deg_n radar_dict3) else None),
             longitudes_key =
               (if return_coords then Some (radar_longitudes_deg_e radar_dict3) else None)\<rparr>)))))))"

definition read_raw_inputs_one_day ::
    "'n raw_helpers \<Rightarrow> string \<Rightarrow> string list \<Rightarrow> int list \<Rightarrow> 'n option \<Rightarrow> bool \<Rightarrow>
     string list \<Rightarrow> int \<Rightarrow> real \<Rightarrow> int \<Rightarrow> int \<Rightarrow> bool \<Rightarrow> error + data_dict option" where
  "read_raw_inputs_one_day h valid_date_string satellite_file_names band_nums
     norm_dict_for_count uniformize radar_file_names lead_time_seconds
     reflectivity_threshold_dbz spatial_downsampling_factor num_examples_to_read return_coords =
     and_then (traverse (radar_io_file_name_to_date h) radar_file_names) (\<lambda>radar_date_strings.
     and_then (list_index radar_date_strings valid_date_string) (\<lambda>radar_index.
     let desired_radar_file_name = radar_file_names ! radar_index in
     and_then (traverse (satellite_io_file_name_to_date h) satellite_file_names)
       (\<lambda>satellite_date_strings.
     and_then (list_index satellite_date_strings valid_date_string) (\<lambda>index.
     let desired_satellite_file_names =
           (if lead_time_seconds > 0 then [item_before satellite_file_names index] else [])
           @ [satellite_file_names ! index] in
     and_then (radar_io_read_2d_file h desired_radar_file_name) (\<lambda>radar_dict0.
     and_then
       (traverse
          (\<lambda>this_file_name.
             and_then (satellite_io_read_file h this_file_name False True)
               (\<lambda>this_satellite_dict.
                  satellite_io_subset_by_band h this_satellite_dict band_nums))
          desired_satellite_file_names) (\<lambda>satellite_dicts.
     and_then (satellite_io_concat_data h satellite_dicts) (\<lambda>satellite_dict0.
     and_then (assert_allclose (radar_latitudes_deg_n radar_dict0)
                 (sat_latitudes_deg_n satellite_dict0)) (\<lambda>u.
     and_then (assert_allclose (radar_longitudes_deg_e radar_dict0)
                 (sat_longitudes_deg_e satellite_dict0)) (\<lambda>v.
     raw_examples h radar_dict0 satellite_dict0 norm_dict_for_count uniformize
       lead_time_seconds reflectivity_threshold_dbz spatial_downsampling_factor
       num_examples_to_read return_coords)))))))))"

subsection \<open>The pre-processed pathway\<close>

text \<open>
  The functions of \<open>example_io\<close> that the reader calls, as parameters.
  \<open>example_io.subset_by_time\<close> is called once with the predictor dictionary and once with
  the target dictionary; the two fields stand for these two uses.
\<close>

record example_helpers =
  example_io_target_file_name_to_date :: "string \<Rightarrow> error + string"
  example_io_read_target_file :: "string \<Rightarrow> bool \<Rightarrow> bool \<Rightarrow> error + target_dict"
  example_io_predictor_file_name_to_date :: "string \<Rightarrow> error + string"
  example_io_read_predictor_file ::
    "string \<Rightarrow> bool \<Rightarrow> bool \<Rightarrow> bool \<Rightarrow> error + predictor_dict"
  example_io_subset_predictors_by_band :: "predictor_dict \<Rightarrow> int list \<Rightarrow> error + predictor_dict"
  example_io_concat_predictor_data :: "predictor_dict list \<Rightarrow> error + predictor_dict"
  example_io_subset_predictors_by_time :: "predictor_dict \<Rightarrow> int list \<Rightarrow> error + predictor_dict"
  example_io_subset_targets_by_time :: "target_dict \<Rightarrow> int list \<Rightarrow> error + target_dict"
  example_io_subset_by_index ::
    "predictor_dict \<Rightarrow> target_dict \<Rightarrow> nat list \<Rightarrow> error + predictor_dict \<times> target_dict"
  example_random_choice :: "nat list \<Rightarrow> int \<Rightarrow> error + nat list"

definition preprocessed_examples ::
    "example_helpers \<Rightarrow> target_dict \<Rightarrow> predictor_dict \<Rightarrow> bool \<Rightarrow> bool \<Rightarrow> int \<Rightarrow> int \<Rightarrow> bool \<Rightarrow>
     error + data_dict option" where
  "preprocessed_examples h target_dict0 predictor_dict0 normalize_flag uniformize lead_time_seconds
     num_examples_to_read return_coords =
     (case good_times (target_valid_times_unix_sec target_dict0) lead_time_seconds
             (predictor_valid_times_unix_sec predictor_dict0) of
        None \<Rightarrow> Inr None
      | Some (valid_times_unix_sec, init_times_unix_sec) \<Rightarrow>
          and_then (example_io_subset_predictors_by_time h predictor_dict0 init_times_unix_sec)
            (\<lambda>predictor_dict1.
          and_then (example_io_subset_targets_by_time h target_dict0 init_times_unix_sec)
            (\<lambda>target_dict1.
          let num_examples = length valid_times_unix_sec in
          and_then
            (if int num_examples \<ge> num_examples_to_read then
               and_then (example_random_choice h [0 ..< num_examples] num_examples_to_read)
                 (\<lambda>desired_indices.
               example_io_subset_by_index h predictor_dict1 target_dict1 desired_indices)
             else Inr (predictor_dict1, target_dict1)) (\<lambda>(predictor_dict2, target_dict2).
          let predictor_matrix =
                (if normalize_flag then
                   (if uniformize then predictor_matrix_unif_norm predictor_dict2
                    else predictor_matrix_norm predictor_dict2)
                 else predictor_matrix_unnorm predictor_dict2);
              target_matrix = target_matrix_of_file target_dict2
          in Inr (Some
            \<lparr>predictor_matrix_key = predictor_matrix,
             target_matrix_key = map (map (map (\<lambda>v. [v]))) target_matrix,
             valid_times_key = valid_times_unix_sec,
             latitudes_key =
               (if return_coords then Some (predictor_latitudes_deg_n predictor_dict2) else None),
             longitudes_key =
               (if return_coords then Some (predictor_longitudes_deg_e predictor_dict2)
                else None)\<rparr>)))))"

definition read_preprocessed_inputs_one_day ::
    "example_helpers \<Rightarrow> string \<Rightarrow> string list \<Rightarrow> int list \<Rightarrow> bool \<Rightarrow> bool \<Rightarrow> string list \<Rightarrow>
     int \<Rightarrow> int \<Rightarrow> bool \<Rightarrow> error + data_dict option" where
  "read_preprocessed_inputs_one_day h valid_date_string predictor_file_names band_nums
     normalize_flag uniformize0 target_file_names lead_time_seconds num_examples_to_read
     return_coords =
     (let uniformize = (uniformize0 \<and> normalize_flag) in
     and_then (traverse (example_io_target_file_name_to_date h) target_file_names)
       (\<lambda>target_date_strings.
     and_then (list_index target_date_strings valid_date_string) (\<lambda>target_index.
     let desired_target_file_name = target_file_names ! target_index in
     and_then (traverse (example_io_predictor_file_name_to_date h) predictor_file_names)
       (\<lambda>predictor_date_strings.
     and_then (list_index predictor_date_strings valid_date_string) (\<lambda>index.
     let desired_predictor_file_names =
           (if lead_time_seconds > 0 then [item_before predictor_file_names index] else [])
           @ [predictor_file_names ! index] in
     and_then (example_io_read_target_file h desired_target_file_name True False)
       (\<lambda>target_dict0.
     and_then
       (traverse
          (\<lambda>this_file_name.
             and_then
               (example_io_read_predictor_file h this_file_name (\<not> normalize_flag)
                  (normalize_flag \<and> \<not> uniformize) (normalize_flag \<and> uniformize))
               (\<lambda>this_predictor_dict.
                  example_io_subset_predictors_by_band h this_predictor_dict band_nums))
          desired_predictor_file_names) (\<lambda>predictor_dicts.
     and_then (example_io_concat_predictor_data h predictor_dicts) (\<lambda>predictor_dict0.
     and_then (assert_allclose (target_latitudes_deg_n target_dict0)
                 (predictor_latitudes_deg_n predictor_dict0)) (\<lambda>u.
     and_then (assert_allclose (target_longitudes_deg_e target_dict0)
                 (predictor_longitudes_deg_e predictor_dict0)) (\<lambda>v.
     preprocessed_examples h target_dict0 predictor_dict0 normalize_flag uniformize
       lead_time_seconds num_examples_to_read return_coords))))))))))"


subsection \<open>Helpers over files held in memory\<close>

text \<open>
  To run the two readers, the helper modules are instantiated over files that are entries of
  an association list from name to content.  A file name starts with its date.  Subsetting
  by time looks every desired time up among the valid times of the dictionary and raises
  when one is absent; subsetting by index and by band select along the first and the last
  axis; concatenation appends along the first axis.
\<close>

definition file_name_to_date :: "string \<Rightarrow> error + string" where
  "file_name_to_date file_name = (if length file_name < 8 then Inl ValueError else Inr (take 8 file_name))"

definition read_from :: "(string \<times> 'a) list \<Rightarrow> string \<Rightarrow> error + 'a" where
  "read_from files file_name =
     (case map_of files file_name of None \<Rightarrow> Inl ValueError | Some d \<Rightarrow> Inr d)"

definition take_indices :: "nat list \<Rightarrow> 'a list \<Rightarrow> 'a list" where
  "take_indices indices xs = map (\<lambda>i. xs ! i) indices"

definition indices_in_range :: "nat list \<Rightarrow> 'a list \<Rightarrow> error + unit" where
  "indices_in_range indices xs =
     (if list_all (\<lambda>i. i < length xs) indices then Inr () else Inl IndexError)"

definition time_indices :: "int list \<Rightarrow> int list \<Rightarrow> error + nat list" where
  "time_indices valid_times desired_times = traverse (list_index valid_times) desired_times"

definition take_bands :: "nat list \<Rightarrow> cell list list list \<Rightarrow> cell list list list" where
  "take_bands indices matrix = map (map (map (take_indices indices))) matrix"

definition concat_optional :: "'a list option list \<Rightarrow> 'a list option" where
  "concat_optional ms =
     (if list_all (\<lambda>m. m \<noteq> None) ms then Some (concat (map the ms)) else None)"

definition radar_subset_by_index :: "radar_dict \<Rightarrow> nat list \<Rightarrow> error + radar_dict" where
  "radar_subset_by_index d indices =
     and_then (indices_in_range indices (radar_valid_times_unix_sec d)) (\<lambda>u.
       Inr (d\<lparr>composite_refl_dbz := take_indices indices (composite_refl_dbz d),
              radar_valid_times_unix_sec := take_indices indices (radar_valid_times_unix_sec d)\<rparr>))"

definition radar_subset_by_time :: "radar_dict \<Rightarrow> int list \<Rightarrow> error + radar_dict" where
  "radar_subset_by_time d desired_times =
     and_then (time_indices (radar_valid_times_unix_sec d) desired_times)
       (radar_subset_by_index d)"

definition satellite_subset_by_index :: "satellite_dict \<Rightarrow> nat list \<Rightarrow> error + satellite_dict" where
  "satellite_subset_by_index d indices =
     and_then (indices_in_range indices (sat_valid_times_unix_sec d)) (\<lambda>u.
       Inr (d\<lparr>brightness_temp_kelvins :=
                map_option (take_indices indices) (brightness_temp_kelvins d),
              brightness_counts := map_option (take_indices indices) (brightness_counts d),
              sat_valid_times_unix_sec := take_indices indices (sat_valid_times_unix_sec d)\<rparr>))"

definition satellite_subset_by_time :: "satellite_dict \<Rightarrow> int list \<Rightarrow> error + satellite_dict" where
  "satellite_subset_by_time d desired_times =
     and_then (time_indices (sat_valid_times_unix_sec d) desired_times)
       (satellite_subset_by_index d)"

definition satellite_subset_by_band :: "satellite_dict \<Rightarrow> int list \<Rightarrow> error + satellite_dict" where
  "satellite_subset_by_band d desired_bands =
     and_then (traverse (list_index (band_numbers d)) desired_bands) (\<lambda>indices.
       Inr (d\<lparr>brightness_temp_kelvins :=
                map_option (take_bands indices) (brightness_temp_kelvins d),
              brightness_counts := map_option (take_bands indices) (brightness_counts d),
              band_numbers := desired_bands\<rparr>))"

definition satellite_concat_data :: "satellite_dict list \<Rightarrow> error + satellite_dict" where
  "satellite_concat_data ds =
     (case ds of
        [] \<Rightarrow> Inl ValueError
      | d # rest \<Rightarrow>
          Inr (d\<lparr>brightness_temp_kelvins := concat_optional (map brightness_temp_kelvins ds),
                 brightness_counts := concat_optional (map brightness_counts ds),
                 sat_valid_times_unix_sec := concat (map sat_valid_times_unix_sec ds)\<rparr>))"

definition satellite_read_file ::
    "(string \<times> satellite_dict) list \<Rightarrow> string \<Rightarrow> bool \<Rightarrow> bool \<Rightarrow> error + satellite_dict" where
  "satellite_read_file files file_name read_temperatures read_counts =
     and_then (read_from files file_name) (\<lambda>d.
       Inr (d\<lparr>brightness_temp_kelvins :=
                (if read_temperatures then brightness_temp_kelvins d else None),
              brightness_counts := (if read_counts then brightness_counts d else None)\<rparr>))"

text \<open>Normalisation by a mean and a standard deviation, and the choice of the first indices.\<close>

definition normalize_counts :: "satellite_dict \<Rightarrow> bool \<Rightarrow> real \<times> real \<Rightarrow> error + satellite_dict" where
  "normalize_counts d uniformize norm_dict =
     Inr (d\<lparr>brightness_counts :=
              map_option (map (map (map (map (\<lambda>v. (v - fst norm_dict) / snd norm_dict)))))
                (brightness_counts d)\<rparr>)"

definition choose_first :: "nat list \<Rightarrow> int \<Rightarrow> error + nat list" where
  "choose_first indices num_chosen =
     (if num_chosen < 0 \<or> num_chosen > int (length indices) then Inl ValueError
      else Inr (take (nat num_chosen) indices))"

definition predictor_subset_by_index :: "predictor_dict \<Rightarrow> nat list \<Rightarrow> error + predictor_dict" where
  "predictor_subset_by_index d indices =
     and_then (indices_in_range indices (predictor_valid_times_unix_sec d)) (\<lambda>u.
       Inr (d\<lparr>predictor_matrix_unnorm :=
                map_option (take_indices indices) (predictor_matrix_unnorm d),
              predictor_matrix_norm := map_option (take_indices indices) (predictor_matrix_norm d),
              predictor_matrix_unif_norm :=
                map_option (take_indices indices) (predictor_matrix_unif_norm d),
              predictor_valid_times_unix_sec :=
                take_indices indices (predictor_valid_times_unix_sec d)\<rparr>))"

definition target_subset_by_index :: "target_dict \<Rightarrow> nat list \<Rightarrow> error + target_dict" where
  "target_subset_by_index d indices =
     and_then (indices_in_range indices (target_valid_times_unix_sec d)) (\<lambda>u.
       Inr (d\<lparr>target_matrix_of_file := take_indices indices (target_matrix_of_file d),
              target_valid_times_unix_sec :=
                take_indices indices (target_valid_times_unix_sec d)\<rparr>))"

definition predictor_subset_by_time :: "predictor_dict \<Rightarrow> int list \<Rightarrow> error + predictor_dict" where
  "predictor_subset_by_time d desired_times =
     and_then (time_indices (predictor_valid_times_unix_sec d) desired_times)
       (predictor_subset_by_index d)"

definition target_subset_by_time :: "target_dict \<Rightarrow> int list \<Rightarrow> error + target_dict" where
  "target_subset_by_time d desired_times =
     and_then (time_indices (target_valid_times_unix_sec d) desired_times)
       (target_subset_by_index d)"

definition examples_subset_by_index ::
    "predictor_dict \<Rightarrow> target_dict \<Rightarrow> nat list \<Rightarrow> error + predictor_dict \<times> target_dict" where
  "examples_subset_by_index p t indices =
     and_then (predictor_subset_by_index p indices) (\<lambda>p'.
     and_then (target_subset_by_index t indices) (\<lambda>t'. Inr (p', t')))"

definition predictor_subset_by_band :: "predictor_dict \<Rightarrow> int list \<Rightarrow> error + predictor_dict" where
  "predictor_subset_by_band d desired_bands =
     and_then (traverse (list_index (predictor_band_numbers d)) desired_bands) (\<lambda>indices.
       Inr (d\<lparr>predictor_matrix_unnorm := map_option (take_bands indices) (predictor_matrix_unnorm d),
              predictor_matrix_norm := map_option (take_bands indices) (predictor_matrix_norm d),
              predictor_matrix_unif_norm :=
                map_option (take_bands indices) (predictor_matrix_unif_norm d),
              predictor_band_numbers := desired_bands\<rparr>))"

definition predictor_concat_data :: "predictor_dict list \<Rightarrow> error + predictor_dict" where
  "predictor_concat_data ds =
     (case ds of
        [] \<Rightarrow> Inl ValueError
      | d # rest \<Rightarrow>
          Inr (d\<lparr>predictor_matrix_unnorm := concat_optional (map predictor_matrix_unnorm ds),
                 predictor_matrix_norm := concat_optional (map predictor_matrix_norm ds),
                 predictor_matrix_unif_norm := concat_optional (map predictor_matrix_unif_norm ds),
                 predictor_valid_times_unix_sec :=
                   concat (map predictor_valid_times_unix_sec ds)\<rparr>))"

definition predictor_read_file ::
    "(string \<times> predictor_dict) list \<Rightarrow> string \<Rightarrow> bool \<Rightarrow> bool \<Rightarrow> bool \<Rightarrow> error + predictor_dict" where
  "predictor_read_file files file_name read_unnormalized read_normalized read_unif_normalized =
     and_then (read_from files file_name) (\<lambda>d.
       Inr (d\<lparr>predictor_matrix_unnorm :=
                (if read_unnormalized then predictor_matrix_unnorm d else None),
              predictor_matrix_norm := (if read_normalized then predictor_matrix_norm d else None),
              predictor_matrix_unif_norm :=
                (if read_unif_normalized then predictor_matrix_unif_norm d else None)\<rparr>))"

definition memory_raw_helpers ::
    "(string \<times> radar_dict) list \<Rightarrow> (string \<times> satellite_dict) list \<Rightarrow> (real \<times> real) raw_helpers" where
  "memory_raw_helpers radar_files satellite_files =
     \<lparr>radar_io_file_name_to_date = file_name_to_date,
      radar_io_read_2d_file = read_from radar_files,
      radar_io_subset_by_time = radar_subset_by_time,
      radar_io_subset_by_index = radar_subset_by_index,
      satellite_io_file_name_to_date = file_name_to_date,
      satellite_io_read_file = satellite_read_file satellite_files,
      satellite_io_subset_by_band = satellite_subset_by_band,
      satellite_io_concat_data = satellite_concat_data,
      satellite_io_subset_by_time = satellite_subset_by_time,
      satellite_io_subset_by_index = satellite_subset_by_index,
      example_io_downsample_data_in_space = downsample_data_in_space,
      normalization_normalize_data = normalize_counts,
      raw_random_choice = choose_first\<rparr>"

definition memory_example_helpers ::
    "(string \<times> target_dict) list \<Rightarrow> (string \<times> predictor_dict) list \<Rightarrow> example_helpers" where
  "memory_example_helpers target_files predictor_files =
     \<lparr>example_io_target_file_name_to_date = file_name_to_date,
      example_io_read_target_file = (\<lambda>file_name read_targets read_reflectivities.
        read_from target_files file_name),
      example_io_predictor_file_name_to_date = file_name_to_date,
      example_io_read_predictor_file = predictor_read_file predictor_files,
      example_io_subset_predictors_by_band = predictor_subset_by_band,
      example_io_concat_predictor_data = predictor_concat_data,
      example_io_subset_predictors_by_time = predictor_subset_by_time,
      example_io_subset_targets_by_time = target_subset_by_time,
      example_io_subset_by_index = examples_subset_by_index,
      example_random_choice = choose_first\<rparr>"

subsection \<open>One day of data, as raw and as pre-processed files\<close>

text \<open>
  A grid of one pixel and band 8 only.  The day 2020-01-02 starts at 1577923200 s.  Radar
  scans exist 10, 20 and 30 minutes into the day, with composite reflectivities of 10, 40
  and 50 dBZ; satellite scans exist at the same times, and the file of the day before holds
  one scan, 20 minutes before midnight.  The pre-processed files hold the same data: the
  predictors are the satellite counts, the targets the reflectivities thresholded at 35 dBZ.
\<close>

definition DAY_START :: int where
  "DAY_START = 1577923200"

definition scan_times :: "int list" where
  "scan_times = [DAY_START + 600, DAY_START + 1200, DAY_START + 1800]"

definition counts_yesterday :: "cell list list list" where
  "counts_yesterday = [[[[100]]]]"

definition counts_today :: "cell list list list" where
  "counts_today = [[[[110]]], [[[120]]], [[[130]]]]"

definition radar_today :: radar_dict where
  "radar_today =
     \<lparr>composite_refl_dbz = [[[10]], [[40]], [[50]]],
      radar_valid_times_unix_sec = scan_times,
      radar_latitudes_deg_n = [25], radar_longitudes_deg_e = [121]\<rparr>"

definition satellite_on :: "cell list list list \<Rightarrow> int list \<Rightarrow> satellite_dict" where
  "satellite_on counts scans =
     \<lparr>brightness_temp_kelvins = None, brightness_counts = Some counts,
      sat_latitudes_deg_n = [25], sat_longitudes_deg_e = [121],
      sat_valid_times_unix_sec = scans, band_numbers = [8]\<rparr>"

definition predictors_on :: "cell list list list \<Rightarrow> int list \<Rightarrow> predictor_dict" where
  "predictors_on counts scans =
     \<lparr>predictor_matrix_unnorm = Some counts, predictor_matrix_norm = None,
      predictor_matrix_unif_norm = None,
      predictor_valid_times_unix_sec = scans,
      predictor_latitudes_deg_n = [25], predictor_longitudes_deg_e = [121],
      predictor_band_numbers = [8]\<rparr>"

definition targets_today :: target_dict where
  "targets_today =
     \<lparr>target_matrix_of_file = [[[0]], [[1]], [[1]]],
      target_valid_times_unix_sec = scan_times,
      target_latitudes_deg_n = [25], target_longitudes_deg_e = [121]\<rparr>"

definition file_names :: "string list" where
  "file_names = [''20200101.nc'', ''20200102.nc'']"

definition radar_files :: "(string \<times> radar_dict) list" where
  "radar_files = [(''20200102.nc'', radar_today)]"

definition satellite_files :: "(string \<times> satellite_dict) list" where
  "satellite_files =
     [(''20200101.nc'', satellite_on counts_yesterday [DAY_START - 1200]),
      (''20200102.nc'', satellite_on counts_today scan_times)]"

definition target_files :: "(string \<times> target_dict) list" where
  "target_files = [(''20200102.nc'', targets_today)]"

definition predictor_files :: "(string \<times> predictor_dict) list" where
  "predictor_files =
     [(''20200101.nc'', predictors_on counts_yesterday [DAY_START - 1200]),
      (''20200102.nc'', predictors_on counts_today scan_times)]"

text \<open>The same day when the scan of the day before is 10 minutes before midnight.\<close>

definition satellite_files_complete :: "(string \<times> satellite_dict) list" where
  "satellite_files_complete =
     [(''20200101.nc'', satellite_on counts_yesterday [DAY_START - 600]),
      (''20200102.nc'', satellite_on counts_today scan_times)]"

definition predictor_files_complete :: "(string \<times> predictor_dict) list" where
  "predictor_files_complete =
     [(''20200101.nc'', predictors_on counts_yesterday [DAY_START - 600]),
      (''20200102.nc'', predictors_on counts_today scan_times)]"


section \<open>Theorems: generator options\<close>

lemma grp_int:
  "first_error (check_key d k assert_is_integer #
      check_key d k (\<lambda>v. assert_is_geq v (of_int b)) # cs) =
     (if is_int_geq (d k) b then first_error cs
      else if d k = None then Inl KeyError else Inl InvalidInput)"
  by (simp add: check_key_def lookup_def assert_is_geq_def is_int_geq_def
      split: option.splits pyval.splits)

lemma grp_band:
  "first_error (check_key d k (\<lambda>v. assert_is_numpy_array v 1) #
      check_key d k assert_is_integer_numpy_array # cs) =
     (if is_1d_int_array (d k) then first_error cs
      else if d k = None then Inl KeyError else Inl InvalidInput)"
  by (simp add: check_key_def lookup_def assert_is_numpy_array_def is_1d_int_array_def
      split: option.splits pyval.splits)

lemma grp_lead:
  "first_error (check_key d k assert_is_integer # check_key d k (\<lambda>v. assert_is_geq v 0) #
      check_key d k (\<lambda>v. assert_is_less_than v (of_int DAYS_TO_SECONDS)) # cs) =
     (if is_valid_lead_time (d k) then first_error cs
      else if d k = None then Inl KeyError else Inl InvalidInput)"
  by (simp add: check_key_def lookup_def assert_is_geq_def assert_is_less_than_def
      is_valid_lead_time_def DAYS_TO_SECONDS_def split: option.splits pyval.splits)

lemma grp_refl:
  "first_error [check_key d k (\<lambda>v. assert_is_greater v 0)] =
     (if is_positive_number (d k) then Inr ()
      else if d k = None then Inl KeyError else Inl InvalidInput)"
  by (simp add: check_key_def lookup_def assert_is_greater_def is_positive_number_def
      split: option.splits pyval.splits)

lemmas option_key_defs =
  BAND_NUMBERS_KEY_def BATCH_SIZE_KEY_def SPATIAL_DS_FACTOR_KEY_def MAX_DAILY_EXAMPLES_KEY_def
  REFL_THRESHOLD_KEY_def NORMALIZE_FLAG_KEY_def UNIFORMIZE_FLAG_KEY_def LEAD_TIME_KEY_def

lemma merged_defaults_dom:
  "merge_defaults bn orig BAND_NUMBERS_KEY \<noteq> None"
  "merge_defaults bn orig BATCH_SIZE_KEY \<noteq> None"
  "merge_defaults bn orig SPATIAL_DS_FACTOR_KEY \<noteq> None"
  "merge_defaults bn orig MAX_DAILY_EXAMPLES_KEY \<noteq> None"
  "merge_defaults bn orig REFL_THRESHOLD_KEY \<noteq> None"
  by (simp_all add: merge_defaults_def DEFAULT_GENERATOR_OPTION_DICT_def map_add_def
      option_key_defs split: option.splits)

lemma merged_lead: "merge_defaults bn orig LEAD_TIME_KEY = orig LEAD_TIME_KEY"
  by (simp add: merge_defaults_def DEFAULT_GENERATOR_OPTION_DICT_def map_add_def
      option_key_defs split: option.splits)

lemma check_generator_args_char:
  "check_generator_args bn orig =
     (let d = merge_defaults bn orig in
      if valid_generator_options d then Inr d
      else if early_checks_pass d \<and> orig LEAD_TIME_KEY = None then Inl KeyError
      else Inl InvalidInput)"
proof -
  note g2 = grp_int[where b=2, simplified]
  note g1 = grp_int[where b=1, simplified]
  show ?thesis
    unfolding check_generator_args_def Let_def grp_band g2 g1 grp_lead grp_refl
    by (simp add: valid_generator_options_def early_checks_pass_def merged_lead
        merged_defaults_dom is_valid_lead_time_def)
qed

text \<open>
  Claim C10, as amended.  \<open>_check_generator_args\<close> returns the merged dictionary exactly when
  the merged dictionary meets the six conditions (lead time an integer in [0, 86400), batch size
  an integer at least 2, downsampling factor an integer at least 1, maximum per day an integer
  at least 2, band numbers a one-dimensional integer array, reflectivity threshold a positive
  number).  Otherwise it raises: an InvalidInput error of the failed check, except that a
  dictionary with no lead time, for which the defaults have no entry, passes the checks on band
  numbers, batch size, downsampling factor and maximum per day and then fails with the key
  error of the lookup.  Every lead time that is negative or at least 86400 is rejected with
  InvalidInput.
\<close>

theorem check_generator_args_contract:
  "check_generator_args bn orig =
     (if valid_generator_options (merge_defaults bn orig) then Inr (merge_defaults bn orig)
      else if early_checks_pass (merge_defaults bn orig) \<and> orig LEAD_TIME_KEY = None
        then Inl KeyError
      else Inl InvalidInput) \<and>
   (\<forall>l. orig LEAD_TIME_KEY = Some (IntV l) \<and> (l < 0 \<or> 86400 \<le> l) \<longrightarrow>
      check_generator_args bn orig = Inl InvalidInput)"
  by (auto simp add: check_generator_args_char Let_def valid_generator_options_def
      merged_lead is_valid_lead_time_def)

theorem check_generator_args_contract_witness:
  "check_generator_args example_band_numbers [LEAD_TIME_KEY \<mapsto> IntV 3600] =
     Inr (merge_defaults example_band_numbers [LEAD_TIME_KEY \<mapsto> IntV 3600]) \<and>
   check_generator_args example_band_numbers [LEAD_TIME_KEY \<mapsto> IntV 86400] =
     Inl InvalidInput \<and>
   check_generator_args example_band_numbers [LEAD_TIME_KEY \<mapsto> IntV (- 300)] =
     Inl InvalidInput"
  using check_generator_args_contract [of example_band_numbers "[LEAD_TIME_KEY \<mapsto> IntV 3600]"]
    check_generator_args_contract [of example_band_numbers "[LEAD_TIME_KEY \<mapsto> IntV 86400]"]
    check_generator_args_contract [of example_band_numbers "[LEAD_TIME_KEY \<mapsto> IntV (- 300)]"]
  by (simp add: valid_generator_options_def merge_defaults_def DEFAULT_GENERATOR_OPTION_DICT_def
      map_add_def option_key_defs example_band_numbers_def is_valid_lead_time_def is_int_geq_def
      is_1d_int_array_def is_positive_number_def)

text \<open>
  The claim as stated fails on a dictionary without a lead time: all other keys take their
  defaults, the first eight checks pass, and the lookup of the lead time raises a key error,
  which is not an error of the error-checking layer.
\<close>

theorem check_generator_args_missing_lead_time:
  "check_generator_args example_band_numbers [BATCH_SIZE_KEY \<mapsto> IntV 32] = Inl KeyError \<and>
   check_generator_args example_band_numbers [BATCH_SIZE_KEY \<mapsto> IntV 32] \<noteq> Inl InvalidInput"
  by (simp add: check_generator_args_char Let_def valid_generator_options_def early_checks_pass_def
      merge_defaults_def DEFAULT_GENERATOR_OPTION_DICT_def
      map_add_def option_key_defs example_band_numbers_def is_valid_lead_time_def is_int_geq_def
      is_1d_int_array_def is_positive_number_def)

section \<open>Theorems: echo classification\<close>

lemma cos_deg_60: "cos (deg2rad 60) = 1 / 2"
proof -
  have "deg2rad 60 = pi / 3" by (simp add: deg2rad_def)
  then have "cos (deg2rad 60) = cos (pi / 3)" by (rule arg_cong)
  then show ?thesis by (simp only: cos_60)
qed

lemma cos_deg_0: "cos (deg2rad 0) = 1"
  by (simp add: deg2rad_def)

lemma neigh_rows_as_specified:
  "neigh_metres_to_rowcol radius g = Inr (nr, nc) \<Longrightarrow>
   nr = 1 + 2 * \<lceil>radius / (latitude_spacing_deg g * 111120)\<rceil>"
  by (auto simp add: neigh_metres_to_rowcol_def DEGREES_LAT_TO_METRES_def Let_def
      split: if_splits sum.splits)

text \<open>
  Claim C4.  On the grid from 60 south to 60 north with a longitude spacing of a tenth of a
  degree and the default radius of 12000 metres, the mean of the grid-point latitudes is 0, so
  the window of the claim has 1 + 2 * ceil (12000 / 11112) = 5 columns.  The source computes
  \<open>mean_latitude_deg\<close> as (max - min) / 2 = 60, half the extent of the latitudes, and
  returns 1 + 2 * ceil (12000 / 5556) = 7 columns.  The row count is as claimed.
\<close>

theorem neigh_metres_to_rowcol_wide_grid:
  "neigh_metres_to_rowcol 12000 wide_grid = Inr (3, 7) \<and>
   spec_neigh_metres_to_rowcol 12000 wide_grid = Inr (3, 5)"
  by (simp add: neigh_metres_to_rowcol_def spec_neigh_metres_to_rowcol_def wide_grid_def
      DEGREES_LAT_TO_METRES_def Let_def cos_deg_60 cos_deg_0)


subsection \<open>Monotonicity of the criteria\<close>

lemma count_or_row:
  "length xs = length ys \<Longrightarrow>
   length (filter id xs) \<le> length (filter id (map2 (\<lambda>x y. x \<or> y) xs ys))"
  by (induction xs ys rule: list_induct2) auto

lemma count_and_row:
  "length (filter id (map2 (\<lambda>x y. x \<and> P y) xs ys)) \<le> length (filter id xs)"
proof (induction xs arbitrary: ys)
  case Nil
  then show ?case by simp
next
  case (Cons x xs)
  then show ?case by (cases ys) (auto simp: le_SucI)
qed

lemma num_convective_or:
  "map length a = map length b \<Longrightarrow>
   num_convective a \<le> num_convective (map2 (map2 (\<lambda>x y. x \<or> y)) a b)"
proof (induction a arbitrary: b)
  case Nil
  then show ?case by (simp add: num_convective_def)
next
  case (Cons row a)
  then obtain row' b' where b: "b = row' # b'" by (cases b) auto
  with Cons.prems have len: "length row = length row'" and rest: "map length a = map length b'"
    by auto
  from Cons.IH[OF rest] count_or_row[OF len] show ?case
    by (simp add: b num_convective_def add_mono)
qed

lemma num_convective_and:
  "num_convective (map2 (map2 (\<lambda>x y. x \<and> P y)) a b) \<le> num_convective a"
proof (induction a arbitrary: b)
  case Nil
  then show ?case by (simp add: num_convective_def)
next
  case (Cons row a)
  show ?case
  proof (cases b)
    case Nil
    then show ?thesis by (simp add: num_convective_def)
  next
    case (Cons row' b')
    from Cons.IH[of b'] count_and_row[of P row row'] show ?thesis
      using Cons by (simp add: num_convective_def add_mono)
  qed
qed

lemma or_keeps_flag:
  assumes "map length a = map length b" "i < length a" "j < length (a ! i)" "a ! i ! j"
  shows "map2 (map2 (\<lambda>x y. x \<or> y)) a b ! i ! j"
proof -
  from assms(1) have la: "length a = length b" by (metis length_map)
  from assms(1,2) have "length (a ! i) = length (b ! i)"
    by (metis la nth_map)
  with assms la show ?thesis by simp
qed

lemma logical_or_mono:
  assumes "logical_or a b = Inr c"
  shows "num_convective a \<le> num_convective c \<and>
         (\<forall>i < length a. \<forall>j < length (a ! i). a ! i ! j \<longrightarrow> c ! i ! j)"
  using assms num_convective_or[of a b] or_keeps_flag[of a b]
  by (auto simp: logical_or_def same_shape2_def split: if_splits)



lemma convolve_mean_shape:
  "length (convolve_mean f) = length f"
  "i < length f \<Longrightarrow> length (convolve_mean f ! i) = length (f ! i)"
  by (simp_all add: convolve_mean_def)

lemma criterion4_pointwise:
  "num_convective (apply_convective_criterion4 f) \<le> num_convective f \<and>
   (\<forall>i < length f. \<forall>j < length (f ! i). apply_convective_criterion4 f ! i ! j \<longrightarrow> f ! i ! j)"
  unfolding apply_convective_criterion4_def
  using num_convective_and[of "\<lambda>a. a > 1 / 9 + TOLERANCE" f "convolve_mean f"]
  by (auto simp: convolve_mean_shape)

lemma criteria_examples:
  "apply_convective_criterion2 (\<lambda>t. 7) storm_volume no_flags small_grid 0 45 = Inr centre_flag"
  "apply_convective_criterion3 storm_volume centre_flag small_grid 10000 25 = Inr centre_flag"
  "apply_convective_criterion4 centre_flag = no_flags"
  "apply_convective_criterion5 storm_volume centre_flag 25 = Inr centre_and_east_flags"
  by code_simp+

text \<open>
  Claim C1.  Criteria 2, 3 and 5 end in a logical or with the flags they are given, so whenever
  they return, every flag that was set is still set and the number of convective pixels has not
  decreased.  Criterion 4 ends in a logical and with the flags it is given, so it sets no flag
  and the number of convective pixels does not increase.
\<close>

theorem criteria_monotone:
  "(apply_convective_criterion2 month r2 f1 g2 t thr2 = Inr f2 \<longrightarrow>
      num_convective f1 \<le> num_convective f2 \<and>
      (\<forall>i < length f1. \<forall>j < length (f1 ! i). f1 ! i ! j \<longrightarrow> f2 ! i ! j)) \<and>
   (apply_convective_criterion3 r3 f2' g3 etop lev = Inr f3 \<longrightarrow>
      num_convective f2' \<le> num_convective f3 \<and>
      (\<forall>i < length f2'. \<forall>j < length (f2' ! i). f2' ! i ! j \<longrightarrow> f3 ! i ! j)) \<and>
   (num_convective (apply_convective_criterion4 f3') \<le> num_convective f3' \<and>
      (\<forall>i < length f3'. \<forall>j < length (f3' ! i).
         apply_convective_criterion4 f3' ! i ! j \<longrightarrow> f3' ! i ! j)) \<and>
   (apply_convective_criterion5 r5 f4 thr5 = Inr f5 \<longrightarrow>
      num_convective f4 \<le> num_convective f5 \<and>
      (\<forall>i < length f4. \<forall>j < length (f4 ! i). f4 ! i ! j \<longrightarrow> f5 ! i ! j))"
proof (intro conjI impI)
  assume "apply_convective_criterion2 month r2 f1 g2 t thr2 = Inr f2"
  then obtain b where "logical_or f1 b = Inr f2"
    by (auto simp: apply_convective_criterion2_def Let_def split: if_splits sum.splits)
  from logical_or_mono[OF this]
  show "num_convective f1 \<le> num_convective f2"
    and "\<forall>i < length f1. \<forall>j < length (f1 ! i). f1 ! i ! j \<longrightarrow> f2 ! i ! j"
    by simp_all
next
  assume "apply_convective_criterion3 r3 f2' g3 etop lev = Inr f3"
  then obtain b where "logical_or f2' b = Inr f3"
    by (auto simp: apply_convective_criterion3_def Let_def split: if_splits sum.splits)
  from logical_or_mono[OF this]
  show "num_convective f2' \<le> num_convective f3"
    and "\<forall>i < length f2'. \<forall>j < length (f2' ! i). f2' ! i ! j \<longrightarrow> f3 ! i ! j"
    by simp_all
next
  assume "apply_convective_criterion5 r5 f4 thr5 = Inr f5"
  then obtain b where "logical_or f4 b = Inr f5"
    by (auto simp: apply_convective_criterion5_def split: sum.splits)
  from logical_or_mono[OF this]
  show "num_convective f4 \<le> num_convective f5"
    and "\<forall>i < length f4. \<forall>j < length (f4 ! i). f4 ! i ! j \<longrightarrow> f5 ! i ! j"
    by simp_all
next
  show "num_convective (apply_convective_criterion4 f3') \<le> num_convective f3'"
    and "\<forall>i < length f3'. \<forall>j < length (f3' ! i).
           apply_convective_criterion4 f3' ! i ! j \<longrightarrow> f3' ! i ! j"
    using criterion4_pointwise[of f3'] by simp_all
qed

theorem criteria_monotone_witness:
  "apply_convective_criterion2 (\<lambda>t. 7) storm_volume no_flags small_grid 0 45 = Inr centre_flag \<and>
   num_convective no_flags \<le> num_convective centre_flag \<and>
   apply_convective_criterion3 storm_volume centre_flag small_grid 10000 25 = Inr centre_flag \<and>
   num_convective centre_flag \<le> num_convective centre_flag \<and>
   num_convective (apply_convective_criterion4 centre_flag) \<le> num_convective centre_flag \<and>
   apply_convective_criterion5 storm_volume centre_flag 25 = Inr centre_and_east_flags \<and>
   num_convective centre_flag \<le> num_convective centre_and_east_flags \<and>
   centre_flag ! 1 ! 1 \<and> centre_and_east_flags ! 1 ! 1"
proof -
  note w = criteria_monotone[of "\<lambda>t. 7" storm_volume no_flags small_grid 0 45 centre_flag
      storm_volume centre_flag small_grid 10000 25 centre_flag centre_flag
      storm_volume centre_flag 25 centre_and_east_flags]
  have c: "centre_flag ! 1 ! 1" by (simp add: centre_flag_def)
  have len: "1 < length centre_flag" "1 < length (centre_flag ! 1)"
    by (simp_all add: centre_flag_def)
  from w criteria_examples(4) len c have "centre_and_east_flags ! 1 ! 1" by blast
  with w criteria_examples c show ?thesis by blast
qed


subsection \<open>Criterion 1 on columns without positive reflectivity\<close>

lemma cos_quarter_degree: "1 / 2 \<le> cos (deg2rad (1 / 4))" "cos (deg2rad (1 / 4)) \<le> 1"
proof -
  have "cos (pi / 3) \<le> cos (deg2rad (1 / 4))"
    by (rule cos_monotone_0_pi_le) (simp_all add: deg2rad_def)
  then show "1 / 2 \<le> cos (deg2rad (1 / 4))" by (simp add: cos_60)
  show "cos (deg2rad (1 / 4)) \<le> 1" by (rule cos_le_one)
qed

lemma ceiling_small:
  fixes c :: real
  assumes "1 / 2 \<le> c" "c \<le> 1"
  shows "\<lceil>12000 / (1 / 4 * (60 * 1852) * c)\<rceil> = 1"
proof (rule ceiling_unique)
  from assms have pos: "0 < 1 / 4 * (60 * 1852) * c" by simp
  then show "of_int 1 - 1 < 12000 / (1 / 4 * (60 * 1852) * c)" by simp
  from assms have "12000 \<le> 1 / 4 * (60 * 1852) * c" by simp
  with pos show "12000 / (1 / 4 * (60 * 1852) * c) \<le> of_int 1"
    by (simp add: divide_le_eq)
qed

lemma small_grid_window: "neigh_metres_to_rowcol 12000 small_grid = Inr (3, 3)"
proof -
  define c where "c = cos (deg2rad (1 / 4))"
  have c: "1 / 2 \<le> c" "c \<le> 1" using cos_quarter_degree by (simp_all add: c_def)
  then have nz: "1 / 4 * (60 * 1852) * c \<noteq> 0" by simp
  have lat: "(20.5 - 20) / 2 = (1 / 4 :: real)" by simp
  have "neigh_metres_to_rowcol 12000 small_grid =
     Inr (1 + 2 * \<lceil>(12000::real) / (1 / 4 * (60 * 1852))\<rceil>, 1 + 2 * \<lceil>12000 / (1 / 4 * (60 * 1852) * c)\<rceil>)"
    unfolding neigh_metres_to_rowcol_def small_grid_def DEGREES_LAT_TO_METRES_def Let_def
    using nz by (simp add: c_def)
  also have "\<dots> = Inr (3, 3)"
    unfolding ceiling_small[OF c] by simp
  finally show ?thesis .
qed

lemma map2_upt_col:
  "map2 (\<lambda>p t. p > t) (map f [0 ..< length col]) (map g col) =
   map (\<lambda>k. f k > g (col ! k)) [0 ..< length col]"
  by (rule nth_equalityI) simp_all

lemma peakedness_flags_nth:
  assumes "peakedness_flags r nr nc = Inr pf" "i < length r" "j < length (r ! i)"
  shows "length pf = length r" "length (pf ! i) = length (r ! i)"
    "pf ! i ! j =
       pyfloat_geq
         (true_divide
            (count_true (map (\<lambda>k. r ! i ! j ! k - median (window_values r nr nc i j k)
                                    > peakedness_threshold (r ! i ! j ! k))
                           [0 ..< length (r ! i ! j)]))
            (count_true (map (\<lambda>x. x > 0) (r ! i ! j))))
         (1 / 2)"
proof -
  from assms(1) have pf: "pf = fractional_exceedance_flags
      (exceedance_numerator
         (map (\<lambda>i. map (\<lambda>j. map (\<lambda>k. r ! i ! j ! k - median (window_values r nr nc i j k))
            [0 ..< length (r ! i ! j)]) [0 ..< length (r ! i)]) [0 ..< length r])
         (get_peakedness_thresholds r))
      (exceedance_denominator r)"
    by (auto simp: peakedness_flags_def get_peakedness_def split: if_splits)
  show "length pf = length r"
    by (simp add: pf fractional_exceedance_flags_def exceedance_numerator_def
        exceedance_denominator_def get_peakedness_thresholds_def)
  show "length (pf ! i) = length (r ! i)"
    using assms(2)
    by (simp add: pf fractional_exceedance_flags_def exceedance_numerator_def
        exceedance_denominator_def get_peakedness_thresholds_def)
  show "pf ! i ! j =
       pyfloat_geq
         (true_divide
            (count_true (map (\<lambda>k. r ! i ! j ! k - median (window_values r nr nc i j k)
                                    > peakedness_threshold (r ! i ! j ! k))
                           [0 ..< length (r ! i ! j)]))
            (count_true (map (\<lambda>x. x > 0) (r ! i ! j))))
         (1 / 2)"
    using assms(2,3)
    by (simp add: pf fractional_exceedance_flags_def exceedance_numerator_def
        exceedance_denominator_def get_peakedness_thresholds_def map2_upt_col)
qed


lemma count_true_zero: "count_true (map P xs) = 0 \<longleftrightarrow> (\<forall>x \<in> set xs. \<not> P x)"
  by (auto simp: count_true_def filter_empty_conv)

lemma quotient_zero_denominator: "pyfloat_geq (true_divide n 0) c \<longleftrightarrow> n \<noteq> 0"
  by (simp add: true_divide_def)

lemma logical_and_nth:
  assumes "logical_and a b = Inr c" "i < length a" "j < length (a ! i)"
  shows "c ! i ! j \<longleftrightarrow> a ! i ! j \<and> b ! i ! j"
proof -
  from assms(1) have shape: "map length a = map length b"
    and c: "c = map2 (map2 (\<lambda>x y. x \<and> y)) a b"
    by (auto simp: logical_and_def same_shape2_def split: if_splits)
  from shape have la: "length a = length b" by (metis length_map)
  from shape assms(2) have "length (a ! i) = length (b ! i)" by (metis la nth_map)
  with assms la show ?thesis by (simp add: c)
qed

lemma max_over_heights_nth:
  assumes "max_over_heights r = Inr m" "i < length r" "j < length (r ! i)"
  shows "m ! i ! j = fold max (tl (r ! i ! j)) (hd (r ! i ! j))"
  using assms by (auto simp: max_over_heights_def split: if_splits)

lemma composite_gate_nth:
  assumes "composite_gate r gate pf = Inr flags" "i < length pf" "j < length (pf ! i)"
    "length pf = length r" "length (pf ! i) = length (r ! i)"
  shows "flags ! i ! j \<longleftrightarrow>
     pf ! i ! j \<and>
     (case gate of None \<Rightarrow> True
      | Some t \<Rightarrow> fold max (tl (r ! i ! j)) (hd (r ! i ! j)) \<ge> t)"
proof (cases gate)
  case None
  with assms(1) show ?thesis by (simp add: composite_gate_def)
next
  case (Some t)
  with assms(1) obtain m where m: "max_over_heights r = Inr m"
    and la: "logical_and pf (geq_threshold m t) = Inr flags"
    by (auto simp: composite_gate_def split: sum.splits)
  from m have lm: "length m = length r" "length (m ! i) = length (r ! i)"
    using assms(2,4) by (auto simp: max_over_heights_def split: if_splits)
  have "geq_threshold m t ! i ! j \<longleftrightarrow> m ! i ! j \<ge> t"
    using assms(2-5) lm by (simp add: geq_threshold_def)
  with logical_and_nth[OF la assms(2,3)] max_over_heights_nth[OF m] assms(2-5) Some
  show ?thesis by simp
qed

lemma median_nonneg:
  assumes "xs \<noteq> []" "\<forall>x \<in> set xs. 0 \<le> x"
  shows "0 \<le> median xs"
proof -
  from assms(1) have "length xs div 2 < length (sort xs)" by (cases xs) auto
  then have "sort xs ! (length xs div 2) \<in> set (sort xs)" by (rule nth_mem)
  with assms(2) show ?thesis by (simp add: median_def)
qed

lemma window_offsets_nonempty: "0 < n \<Longrightarrow> window_offsets n \<noteq> []"
  by (simp add: window_offsets_def upto_Nil2) 

lemma padded_value_nonneg: "nonneg_volume r \<Longrightarrow> 0 \<le> padded_value r a b k"
  by (auto simp: padded_value_def nonneg_volume_def list_all_length)

lemma window_median_nonneg:
  assumes "nonneg_volume r" "0 < nr" "0 < nc"
  shows "0 \<le> median (window_values r nr nc i j k)"
proof (rule median_nonneg)
  from assms(2,3) window_offsets_nonempty[of nr] window_offsets_nonempty[of nc]
  show "window_values r nr nc i j k \<noteq> []"
    by (cases "window_offsets nr"; cases "window_offsets nc") (auto simp: window_values_def)
  show "\<forall>x \<in> set (window_values r nr nc i j k). 0 \<le> x"
    using padded_value_nonneg[OF assms(1)] by (auto simp: window_values_def)
qed

lemma peakedness_threshold_floor: "4 \<le> peakedness_threshold x"
  by (simp add: peakedness_threshold_def Let_def)

lemma criterion1_not_halved:
  "apply_convective_criterion1 spl r radius max_h False gate g =
     (case neigh_metres_to_rowcol radius g of
        Inl e \<Rightarrow> Inl e
      | Inr (nr, nc) \<Rightarrow>
         (case peakedness_flags (qualifying_heights r g max_h) nr nc of
            Inl e \<Rightarrow> Inl e
          | Inr pf \<Rightarrow> composite_gate r gate pf))"
  unfolding apply_convective_criterion1_def qualifying_heights_def Let_def by simp

lemma qualifying_heights_shape:
  "length (qualifying_heights r g h) = length r"
  "i < length r \<Longrightarrow> length (qualifying_heights r g h ! i) = length (r ! i)"
  "i < length r \<Longrightarrow> j < length (r ! i) \<Longrightarrow>
     set (qualifying_heights r g h ! i ! j) \<subseteq> set (r ! i ! j)"
  by (auto simp: qualifying_heights_def heights_up_to_def dest: in_set_takeD)

lemma nonneg_qualifying: "nonneg_volume r \<Longrightarrow> nonneg_volume (qualifying_heights r g h)"
  by (auto simp: nonneg_volume_def qualifying_heights_def heights_up_to_def list_all_iff
      dest: in_set_takeD)

lemma get_peakedness_sizes:
  "peakedness_flags q nr nc = Inr pf \<Longrightarrow> 0 < nr \<and> 0 < nc"
  by (auto simp: peakedness_flags_def get_peakedness_def split: if_splits)

lemma no_exceedance_at_zero:
  assumes "nonneg_volume q" "0 < nr" "0 < nc" "q ! i ! j ! k \<le> 0"
  shows "\<not> exceeds_threshold q nr nc i j k"
proof -
  have "q ! i ! j ! k - median (window_values q nr nc i j k) \<le> 0"
    using window_median_nonneg[OF assms(1-3), of i j k] assms(4) by simp
  also have "\<dots> < peakedness_threshold (q ! i ! j ! k)"
    using peakedness_threshold_floor[of "q ! i ! j ! k"] by simp
  finally show ?thesis by (simp add: exceeds_threshold_def)
qed

lemma e1_qualifying:
  "qualifying_heights elevated_echo_volume small_grid 9000 ! 1 ! 1 = [- 1, - 1]"
  "qualifying_heights weak_echo_volume small_grid 9000 ! 1 ! 1 = [- 1, - 1]"
  "qualifying_heights storm_volume small_grid 9000 ! 0 ! 0 = [0, 0]"
  by code_simp+

lemma e1_flags:
  "peakedness_flags (qualifying_heights elevated_echo_volume small_grid 9000) 3 3 = Inr centre_flag"
  "peakedness_flags (qualifying_heights weak_echo_volume small_grid 9000) 3 3 = Inr centre_flag"
  "peakedness_flags (qualifying_heights storm_volume small_grid 9000) 3 3 = Inr centre_and_east_flags"
  by code_simp+

lemma e1_gate:
  "composite_gate elevated_echo_volume (Some 25) centre_flag = Inr centre_flag"
  "composite_gate weak_echo_volume None centre_flag = Inr centre_flag"
  "composite_gate storm_volume (Some 25) centre_and_east_flags = Inr centre_and_east_flags"
  by code_simp+

lemma criterion1_examples:
  "apply_convective_criterion1 unused_spline elevated_echo_volume 12000 9000 False (Some 25)
     small_grid = Inr centre_flag"
  "apply_convective_criterion1 unused_spline weak_echo_volume 12000 9000 False None
     small_grid = Inr centre_flag"
  "apply_convective_criterion1 unused_spline storm_volume 12000 9000 False (Some 25)
     small_grid = Inr centre_and_east_flags"
  by (simp_all add: criterion1_not_halved small_grid_window e1_flags e1_gate)

text \<open>
  Claim C5, as amended.  At full resolution, take a column in which no qualifying height has
  reflectivity above zero, so that the denominator of the fractional exceedance is zero.  The
  column is marked by criterion 1 exactly when the peakedness exceeds its threshold at some
  qualifying height (the quotient is then plus infinity, which is at least 0.5) and the column
  passes the composite-reflectivity gate.  When no height exceeds the threshold the quotient is
  0/0, not a number, and the flag is false; this is always so in a volume without negative
  reflectivities.
\<close>

theorem criterion1_zero_denominator:
  assumes "apply_convective_criterion1 spl r radius max_h False gate g = Inr flags"
    and "neigh_metres_to_rowcol radius g = Inr (nr, nc)"
    and "i < length r" and "j < length (r ! i)"
    and "\<forall>x \<in> set (qualifying_heights r g max_h ! i ! j). x \<le> 0"
  shows "(flags ! i ! j \<longleftrightarrow>
           (\<exists>k < length (qualifying_heights r g max_h ! i ! j).
              exceeds_threshold (qualifying_heights r g max_h) nr nc i j k) \<and>
           passes_gate gate (r ! i ! j)) \<and>
         (nonneg_volume r \<longrightarrow> \<not> flags ! i ! j)"
proof -
  define q where "q = qualifying_heights r g max_h"
  from assms(1,2) obtain pf where pf: "peakedness_flags q nr nc = Inr pf"
    and gate: "composite_gate r gate pf = Inr flags"
    by (auto simp: criterion1_not_halved q_def split: sum.splits)
  have iq: "i < length q" "j < length (q ! i)"
    using assms(3,4) by (simp_all add: q_def qualifying_heights_shape)
  note nth = peakedness_flags_nth[OF pf iq]
  have shape: "length pf = length r" "length (pf ! i) = length (r ! i)"
    using nth(1,2) assms(3) by (simp_all add: q_def qualifying_heights_shape)
  have den: "count_true (map (\<lambda>x. x > 0) (q ! i ! j)) = 0"
    using assms(5) by (auto simp: count_true_zero q_def)
  have pfij: "pf ! i ! j \<longleftrightarrow> (\<exists>k < length (q ! i ! j). exceeds_threshold q nr nc i j k)"
    unfolding nth(3) den quotient_zero_denominator
    by (auto simp: count_true_zero exceeds_threshold_def)
  have flag: "flags ! i ! j \<longleftrightarrow> pf ! i ! j \<and> passes_gate gate (r ! i ! j)"
    using composite_gate_nth[OF gate _ _ shape] assms(3,4) shape
    by (simp add: passes_gate_def)
  have "\<not> pf ! i ! j" if nn: "nonneg_volume r"
  proof -
    from get_peakedness_sizes[OF pf] have sizes: "0 < nr" "0 < nc" by simp_all
    have "\<not> exceeds_threshold q nr nc i j k" if "k < length (q ! i ! j)" for k
    proof (rule no_exceedance_at_zero[OF _ sizes])
      show "nonneg_volume q" using nn by (simp add: q_def nonneg_qualifying)
      show "q ! i ! j ! k \<le> 0" using assms(5) that by (simp add: q_def)
    qed
    then show ?thesis by (simp add: pfij)
  qed
  with flag pfij show ?thesis by (auto simp: q_def)
qed

theorem criterion1_zero_denominator_witness:
  "(centre_flag ! 1 ! 1 \<longleftrightarrow>
      (\<exists>k < length (qualifying_heights elevated_echo_volume small_grid 9000 ! 1 ! 1).
         exceeds_threshold (qualifying_heights elevated_echo_volume small_grid 9000) 3 3 1 1 k) \<and>
      passes_gate (Some 25) (elevated_echo_volume ! 1 ! 1)) \<and>
   nonneg_volume storm_volume \<and> \<not> centre_and_east_flags ! 0 ! 0"
proof -
  have nn: "nonneg_volume storm_volume" by code_simp
  have a: "\<forall>x \<in> set (qualifying_heights elevated_echo_volume small_grid 9000 ! 1 ! 1). x \<le> 0"
    unfolding e1_qualifying by simp
  have b: "\<forall>x \<in> set (qualifying_heights storm_volume small_grid 9000 ! 0 ! 0). x \<le> 0"
    unfolding e1_qualifying by simp
  have i1: "1 < length elevated_echo_volume" "1 < length (elevated_echo_volume ! 1)"
    by (simp_all add: elevated_echo_volume_def)
  have i0: "0 < length storm_volume" "0 < length (storm_volume ! 0)"
    by (simp_all add: storm_volume_def)
  note w1 = criterion1_zero_denominator[OF criterion1_examples(1) small_grid_window i1 a]
  note w2 = criterion1_zero_denominator[OF criterion1_examples(3) small_grid_window i0 b]
  from w2 nn have "\<not> centre_and_east_flags ! 0 ! 0" by blast
  with w1 nn show ?thesis by blast
qed

text \<open>
  The claim as stated fails on a volume with negative reflectivities.  With the default
  options the centre column of \<open>elevated_echo_volume\<close> has reflectivity -1 dBZ at both
  qualifying heights, the median of its neighbourhood is -20 dBZ, the peakedness of 19 dBZ
  exceeds the threshold at both heights, the quotient is 2/0 and the column is marked.
  Without the gate the same holds for a column with no positive reflectivity at all.
\<close>

theorem criterion1_marks_zero_denominator_column:
  "apply_convective_criterion1 unused_spline elevated_echo_volume 12000 9000 False (Some 25)
     small_grid = Inr centre_flag \<and>
   qualifying_heights elevated_echo_volume small_grid 9000 ! 1 ! 1 = [- 1, - 1] \<and>
   apply_convective_criterion1 unused_spline weak_echo_volume 12000 9000 False None
     small_grid = Inr centre_flag \<and>
   weak_echo_volume ! 1 ! 1 = [- 1, - 1, - 1] \<and>
   centre_flag ! 1 ! 1"
  unfolding criterion1_examples e1_qualifying
  by (simp add: weak_echo_volume_def centre_flag_def)


section \<open>Theorems: inference in batches\<close>

lemma assign_examples_nth:
  "length vs = m' - m \<Longrightarrow> m \<le> m' \<Longrightarrow> m' \<le> length acc \<Longrightarrow>
   assign_examples acc [m ..< m'] vs =
     take m acc @ map Some vs @ drop m' acc"
proof (induction vs arbitrary: m acc)
  case Nil
  then show ?case by (auto simp: assign_examples_def)
next
  case (Cons v vs)
  then have lt: "m < m'" by auto
  then have upt: "[m ..< m'] = m # [Suc m ..< m']" by (simp add: upt_conv_Cons)
  have "assign_examples acc [m ..< m'] (v # vs) = assign_examples (acc[m := Some v]) [Suc m ..< m'] vs"
    by (simp add: assign_examples_def upt)
  also have "\<dots> = take (Suc m) (acc[m := Some v]) @ map Some vs @ drop m' (acc[m := Some v])"
    using Cons.prems by (intro Cons.IH) auto
  also have "\<dots> = take m acc @ map Some (v # vs) @ drop m' acc"
    using lt Cons.prems(3) by (simp add: take_Suc_conv_app_nth)
  finally show ?case .
qed


lemma these_indices_eq:
  "0 < b \<Longrightarrow> i < n \<Longrightarrow> these_indices n b i = [i ..< min (i + b) n]"
proof -
  assume "0 < b" "i < n"
  then have "Suc (min (i + b - 1) (n - 1)) = min (i + b) n" by (auto simp: min_def)
  then show ?thesis by (simp add: these_indices_def)
qed

lemma map_nth_upt_drop_take:
  "m' \<le> length X \<Longrightarrow> map (\<lambda>k. X ! k) [m ..< m'] = drop m (take m' X)"
  by (rule nth_equalityI) auto

lemma apply_to_chunk_written:
  assumes pred: "\<And>xs. predict xs = map f xs" and b: "0 < b" and m: "m < length X"
    and fc: "fc = None \<and> m = 0 \<or> fc = Some (written f X m)"
  shows "apply_to_chunk predict X b m fc = Inr (Some (written f X (min (m + b) (length X))))"
proof -
  let ?n = "length X" and ?m' = "min (m + b) (length X)"
  have acc: "(case fc of None \<Rightarrow> replicate ?n None | Some a \<Rightarrow> a) = written f X m"
    using fc by (auto simp: written_def)
  have vals: "map first_channel (predict (map (\<lambda>k. X ! k) [m ..< ?m'])) =
      map (\<lambda>x. first_channel (f x)) (drop m (take ?m' X))"
    by (simp add: pred map_nth_upt_drop_take)
  have "assign_examples (written f X m) [m ..< ?m']
          (map (\<lambda>x. first_channel (f x)) (drop m (take ?m' X))) =
        take m (written f X m) @ map Some (map (\<lambda>x. first_channel (f x)) (drop m (take ?m' X)))
          @ drop ?m' (written f X m)"
    using m b by (intro assign_examples_nth) (auto simp: written_def)
  also have "\<dots> = written f X ?m'"
  proof -
    have t: "take m (written f X m) = map (\<lambda>x. Some (first_channel (f x))) (take m X)"
      using m by (simp add: written_def)
    have d: "drop ?m' (written f X m) = replicate (?n - ?m') None"
      using m b by (simp add: written_def)
    have "take m (take ?m' X) = take m X" using m b by (simp add: min_def)
    with append_take_drop_id[of m "take ?m' X"]
    have split: "take m X @ drop m (take ?m' X) = take ?m' X" by simp
    have "map (\<lambda>x. Some (first_channel (f x))) (take m X @ drop m (take ?m' X)) =
        map (\<lambda>x. Some (first_channel (f x))) (take m X) @
        map Some (map (\<lambda>x. first_channel (f x)) (drop m (take ?m' X)))"
      by (simp add: comp_def)
    then have mapeq: "map (\<lambda>x. Some (first_channel (f x))) (take ?m' X) =
        map (\<lambda>x. Some (first_channel (f x))) (take m X) @
        map Some (map (\<lambda>x. first_channel (f x)) (drop m (take ?m' X)))"
      unfolding split .
    show ?thesis unfolding t d written_def[of f X ?m'] mapeq by simp
  qed
  finally have assigned: "assign_examples (written f X m) [m ..< ?m']
          (map (\<lambda>x. first_channel (f x)) (drop m (take ?m' X))) = written f X ?m'" .
  have len: "length (predict xs) = length xs" for xs by (simp add: pred)
  have "apply_to_chunk predict X b m fc =
      Inr (Some (assign_examples (written f X m) [m ..< ?m']
        (map first_channel (predict (map (\<lambda>k. X ! k) [m ..< ?m'])))))"
    using m b by (simp add: apply_to_chunk_def Let_def these_indices_eq acc len)
  then show ?thesis unfolding vals assigned .
qed


lemma apply_to_chunks_written:
  assumes pred: "\<And>xs. predict xs = map f xs" and b: "0 < b"
  shows "(c0 + d) * b < length X + b \<Longrightarrow>
     fc = None \<and> c0 = 0 \<or> fc = Some (written f X (c0 * b)) \<Longrightarrow>
     apply_to_chunks predict X b (map (\<lambda>k. k * b) [c0 ..< c0 + d]) fc =
       Inr (if d = 0 then fc else Some (written f X (min ((c0 + d) * b) (length X))))"
proof (induction d arbitrary: c0 fc)
  case 0
  then show ?case by simp
next
  case (Suc d)
  have upt: "[c0 ..< c0 + Suc d] = c0 # [Suc c0 ..< Suc c0 + d]"
    by (simp add: upt_conv_Cons)
  from Suc.prems(1) b have lt: "c0 * b < length X"
    by (simp add: algebra_simps) 
  from Suc.prems(2) have fc: "fc = None \<and> c0 * b = 0 \<or> fc = Some (written f X (c0 * b))"
    by auto
  note chunk = apply_to_chunk_written[OF pred b lt fc]
  let ?fc' = "Some (written f X (min (c0 * b + b) (length X)))"
  have first: "apply_to_chunks predict X b (map (\<lambda>k. k * b) [c0 ..< c0 + Suc d]) fc =
      apply_to_chunks predict X b (map (\<lambda>k. k * b) [Suc c0 ..< Suc c0 + d]) ?fc'"
    by (simp only: upt list.map apply_to_chunks.simps chunk sum.case)
  show ?case
  proof (cases d)
    case 0
    then show ?thesis unfolding first by (simp add: algebra_simps)
  next
    case (Suc d')
    with Suc.prems(1) b have "Suc c0 * b \<le> length X"
      by (simp add: algebra_simps)
    then have m: "min (c0 * b + b) (length X) = Suc c0 * b" by (simp add: algebra_simps)
    have "apply_to_chunks predict X b (map (\<lambda>k. k * b) [Suc c0 ..< Suc c0 + d]) ?fc' =
        Inr (if d = 0 then ?fc' else Some (written f X (min ((Suc c0 + d) * b) (length X))))"
      using Suc.prems(1) by (intro Suc.IH) (simp_all add: m)
    then show ?thesis unfolding first using Suc by simp
  qed
qed

lemma range_step_bounds:
  fixes b n :: nat
  assumes "0 < b" "0 < n"
  shows "(n + b - 1) div b * b < n + b" "n \<le> (n + b - 1) div b * b" "0 < (n + b - 1) div b"
proof -
  have "(n + b - 1) div b * b \<le> n + b - 1" by (rule div_times_less_eq_dividend)
  with assms show "(n + b - 1) div b * b < n + b" by linarith
  have "n + b - 1 < b + (n + b - 1) div b * b"
    using assms(1) by (rule dividend_less_div_times)
  with assms show le: "n \<le> (n + b - 1) div b * b" by linarith
  with assms show "0 < (n + b - 1) div b" by (cases "(n + b - 1) div b") auto
qed

lemma apply_to_chunks_all:
  assumes pred: "\<And>xs. predict xs = map f xs" and b: "0 < b" and X: "X \<noteq> []"
  shows "apply_to_chunks predict X b (range_step (length X) b) None =
     Inr (Some (map (\<lambda>x. Some (first_channel (f x))) X))"
proof -
  let ?n = "length X" and ?c = "(length X + b - 1) div b"
  from X have n: "0 < ?n" by simp
  note bd = range_step_bounds[OF b n]
  have "apply_to_chunks predict X b (map (\<lambda>k. k * b) [0 ..< 0 + ?c]) None =
      Inr (if ?c = 0 then None else Some (written f X (min ((0 + ?c) * b) ?n)))"
    using bd(1) by (intro apply_to_chunks_written[OF pred b]) simp_all
  moreover have "min (?c * b) ?n = ?n" using bd(2) by simp
  ultimately show ?thesis using bd(3) by (simp add: range_step_def written_def)
qed

lemma check_inference_args_valid:
  assumes "\<not> contains_nan X" "valid_batch_size bsz"
  shows "check_inference_args X bsz (BoolV v) =
     Inr (min (case bsz of IntV k \<Rightarrow> k | _ \<Rightarrow> int (length X)) (int (length X)))"
  using assms
  by (cases bsz) (simp_all add: check_inference_args_def assert_is_numpy_array_without_nan_def
      assert_is_geq_def Let_def)

lemma check_inference_args_not_boolean:
  assumes "\<not> contains_nan X" "valid_batch_size bsz" "\<forall>v. verbose \<noteq> BoolV v"
  shows "check_inference_args X bsz verbose = Inl InvalidInput"
  using assms
  by (cases verbose; cases bsz) (auto simp: check_inference_args_def
      assert_is_numpy_array_without_nan_def assert_is_geq_def Let_def)

lemma apply_model_valid:
  assumes pred: "\<And>xs. predict xs = map f xs" and "\<not> contains_nan X" "valid_batch_size bsz"
  shows "apply_model predict X bsz (BoolV v) =
     (if X = [] then Inl ValueError
      else Inr (Some (map (\<lambda>x. Some (first_channel (f x))) X)))"
proof (cases "X = []")
  case True
  then show ?thesis
    using check_inference_args_valid[OF assms(2,3), of v] assms(3)
    by (cases bsz) (simp_all add: apply_model_def)
next
  case False
  define k where "k = min (case bsz of IntV k \<Rightarrow> k | _ \<Rightarrow> int (length X)) (int (length X))"
  have chk: "check_inference_args X bsz (BoolV v) = Inr k"
    unfolding k_def by (rule check_inference_args_valid[OF assms(2,3)])
  have pos: "0 < k" using False assms(3) by (cases bsz) (auto simp: k_def)
  then have "0 < nat k" by simp
  from apply_to_chunks_all[OF pred this False] pos False
  show ?thesis by (simp add: apply_model_def chk)
qed

lemma chunk_indices_cover:
  assumes b: "0 < b"
  shows "(c0 + d) * b < n + b \<Longrightarrow>
     concat (map (these_indices n b) (map (\<lambda>k. k * b) [c0 ..< c0 + d])) =
       [c0 * b ..< (if d = 0 then c0 * b else min ((c0 + d) * b) n)]"
proof (induction d arbitrary: c0)
  case 0
  then show ?case by simp
next
  case (Suc d)
  have upt: "[c0 ..< c0 + Suc d] = c0 # [Suc c0 ..< Suc c0 + d]"
    by (simp add: upt_conv_Cons)
  from Suc.prems b have lt: "c0 * b < n" by (simp add: algebra_simps)
  have first: "concat (map (these_indices n b) (map (\<lambda>k. k * b) [c0 ..< c0 + Suc d])) =
      these_indices n b (c0 * b) @
      concat (map (these_indices n b) (map (\<lambda>k. k * b) [Suc c0 ..< Suc c0 + d]))"
    by (simp only: upt list.map concat.simps)
  have this_chunk: "these_indices n b (c0 * b) = [c0 * b ..< min (c0 * b + b) n]"
    using b lt by (rule these_indices_eq)
  show ?case
  proof (cases d)
    case 0
    then show ?thesis unfolding first this_chunk by (simp add: algebra_simps)
  next
    case (Suc d')
    with Suc.prems b have le: "Suc c0 * b \<le> n" by (simp add: algebra_simps)
    then have m: "min (c0 * b + b) n = Suc c0 * b" by (simp add: algebra_simps)
    have ih: "concat (map (these_indices n b) (map (\<lambda>k. k * b) [Suc c0 ..< Suc c0 + d])) =
        [Suc c0 * b ..< min ((Suc c0 + d) * b) n]"
      using Suc.IH[of "Suc c0"] Suc.prems Suc by simp
    have "Suc c0 * b \<le> min ((Suc c0 + d) * b) n" using le by simp
    then obtain k where k: "min ((Suc c0 + d) * b) n = Suc c0 * b + k"
      using le_Suc_ex by blast
    have "c0 * b \<le> Suc c0 * b" by simp
    then have "[c0 * b ..< Suc c0 * b] @ [Suc c0 * b ..< min ((Suc c0 + d) * b) n] =
        [c0 * b ..< min ((Suc c0 + d) * b) n]"
      unfolding k by (rule upt_add_eq_append[symmetric])
    then show ?thesis unfolding first this_chunk ih m by simp
  qed
qed

lemma chunks_partition:
  assumes "0 < b"
  shows "concat (map (these_indices n b) (range_step n b)) = [0 ..< n]"
proof (cases "n = 0")
  case True
  then show ?thesis using assms by (simp add: range_step_def)
next
  case False
  then have n: "0 < n" by simp
  note bd = range_step_bounds[OF assms n]
  from chunk_indices_cover[OF assms, of 0 "(n + b - 1) div b" n] bd
  show ?thesis by (simp add: range_step_def min_absorb2)
qed

text \<open>
  Claim C7.  Let the model's predict operation map every example by one function \<open>f\<close>, let the
  predictor matrix hold no not-a-number, and take two batch sizes that the check accepts
  (\<open>None\<close> or an integer that is at least one).  Then \<open>apply_model\<close> gives the same result
  for both.  With at least one example and a Boolean \<open>verbose\<close> that result is the array
  whose entry for each example is the first channel of \<open>f\<close> of that example; without
  examples or with another \<open>verbose\<close> both calls raise the same error.  The index chunks of
  the loop, in order, make up the indices 0 to the number of examples without gap or
  repetition, so every example is written exactly once, from the chunk that holds it.
\<close>

theorem apply_model_batch_invariant:
  assumes "\<forall>xs. predict xs = map f xs"
    and "\<not> contains_nan X"
    and "valid_batch_size b1" and "valid_batch_size b2"
  shows "apply_model predict X b1 verbose = apply_model predict X b2 verbose \<and>
         (X \<noteq> [] \<longrightarrow>
            apply_model predict X b1 (BoolV v) =
              Inr (Some (map (\<lambda>x. Some (first_channel (f x))) X))) \<and>
         (\<forall>k > 0. concat (map (these_indices (length X) k) (range_step (length X) k)) =
            [0 ..< length X])"
proof (intro conjI impI allI)
  from assms(1) have pred: "\<And>xs. predict xs = map f xs" by simp
  show "apply_model predict X b1 verbose = apply_model predict X b2 verbose"
  proof (cases "\<exists>w. verbose = BoolV w")
    case True
    then obtain w where "verbose = BoolV w" ..
    then show ?thesis
      by (simp add: apply_model_valid[OF pred assms(2,3)] apply_model_valid[OF pred assms(2,4)])
  next
    case False
    then have "\<forall>w. verbose \<noteq> BoolV w" by simp
    then show ?thesis
      by (simp add: apply_model_def check_inference_args_not_boolean[OF assms(2,3)]
          check_inference_args_not_boolean[OF assms(2,4)])
  qed
  show "apply_model predict X b1 (BoolV v) =
      Inr (Some (map (\<lambda>x. Some (first_channel (f x))) X))" if "X \<noteq> []"
    using that by (simp add: apply_model_valid[OF pred assms(2,3)])
  show "concat (map (these_indices (length X) k) (range_step (length X) k)) = [0 ..< length X]"
    if "0 < k" for k
    using that by (rule chunks_partition)
qed

lemma apply_model_examples:
  "\<not> contains_nan three_examples"
  "apply_model doubling_model three_examples (IntV 2) (BoolV False) =
     Inr (Some [Some [[Finite 2]], Some [[Finite 4]], Some [[Finite 6]]])"
  "map (these_indices 3 2) (range_step 3 2) = [[0, 1], [2]]"
  by code_simp+

theorem apply_model_batch_invariant_witness:
  "\<not> contains_nan three_examples \<and> valid_batch_size (IntV 2) \<and> valid_batch_size NoneV \<and>
   apply_model doubling_model three_examples NoneV (BoolV False) =
     Inr (Some [Some [[Finite 2]], Some [[Finite 4]], Some [[Finite 6]]]) \<and>
   concat (map (these_indices (length three_examples) 2)
                (range_step (length three_examples) 2)) = [0 ..< length three_examples]"
proof -
  have pred: "\<forall>xs. doubling_model xs = map (map (map (map double_value))) xs"
    by (simp add: doubling_model_def)
  have v: "valid_batch_size (IntV 2)" "valid_batch_size NoneV" by simp_all
  note w = apply_model_batch_invariant[OF pred apply_model_examples(1) v,
      of "BoolV False" False]
  have "(0::nat) < 2" by simp
  with w have "concat (map (these_indices (length three_examples) 2)
                (range_step (length three_examples) 2)) = [0 ..< length three_examples]"
    by blast
  moreover from w apply_model_examples(2)
  have "apply_model doubling_model three_examples NoneV (BoolV False) =
     Inr (Some [Some [[Finite 2]], Some [[Finite 4]], Some [[Finite 6]]])"
    by simp
  ultimately show ?thesis using apply_model_examples(1) v by blast
qed


section \<open>Theorems: pooling\<close>













section \<open>Theorems: CoordConv channels\<close>











lemma concat_channels_rows:
  "map2 (map2 (\<lambda>xs ys. xs @ ys)) (replicate r (map (\<lambda>j. [fx j]) [0 ..< c]))
      (map (\<lambda>i. replicate c [fy i]) [0 ..< r]) =
   map (\<lambda>i. map (\<lambda>j. [fx j, fy i]) [0 ..< c]) [0 ..< r]"
proof -
  have row: "map2 (\<lambda>xs ys. xs @ ys) (map (\<lambda>j. [fx j]) [0 ..< c]) (replicate c [fy i]) =
      map (\<lambda>j. [fx j, fy i]) [0 ..< c]" for i
    by (rule nth_equalityI) simp_all
  show ?thesis by (rule nth_equalityI) (simp_all add: row)
qed

lemma concat_channels:
  "map2 (map2 (map2 (\<lambda>xs ys. xs @ ys)))
     (replicate e (replicate r (map (\<lambda>j. [fx j]) [0 ..< c])))
     (replicate e (map (\<lambda>i. replicate c [fy i]) [0 ..< r])) =
   replicate e (map (\<lambda>i. map (\<lambda>j. [fx j, fy i]) [0 ..< c]) [0 ..< r])"
  by (simp add: zip_replicate concat_channels_rows)










section \<open>Theorems: fractions skill score\<close>

lemma map2_same: "map2 f xs xs = map (\<lambda>x. f x x) xs"
  by (simp add: zip_same_conv_map)

lemma map2_same3:
  "map2 (map2 (map2 f)) s s = map (map (map (\<lambda>x. f x x))) s"
  by (simp add: map2_same)

lemma flatten_map: "concat (concat (map (map (map f)) s)) = map f (concat (concat s))"
  by (simp add: map_concat comp_def)

lemma all_finite_iff: "all_finite s \<longleftrightarrow> (\<forall>v \<in> set (concat (concat s)). is_finite v)"
  by (auto simp: all_finite_def list_all_iff)

lemma fl_not_nan: "fl fmt x \<noteq> NotANumber"
  by (simp add: fl_def Let_def)

lemma fl_zero:
  assumes "nearest fmt 0 = 0" "1 \<le> largest_finite fmt"
  shows "fl fmt 0 = Finite 0"
  using assms by (simp add: fl_def Let_def)

lemma fl_one:
  assumes "nearest fmt 1 = 1" "1 \<le> largest_finite fmt"
  shows "fl fmt 1 = Finite 1"
  using assms by (simp add: fl_def Let_def)

lemma squared_difference_same:
  assumes "nearest fmt 0 = 0" "1 \<le> largest_finite fmt"
  shows "squared_difference fmt a a = (if is_finite a then Finite 0 else NotANumber)"
  using fl_zero[OF assms]
  by (cases a) (simp_all add: squared_difference_def fl_sub_def Let_def)

lemma fl_add_nan_left: "fl_add fmt NotANumber b = NotANumber"
  by simp

lemma fl_add_nan_right: "fl_add fmt a NotANumber = NotANumber"
  by (cases a) simp_all

lemma fold_add_nan:
  "fold (\<lambda>v acc. fl_add fmt acc v) vs NotANumber = NotANumber"
  by (induction vs) simp_all

lemma fold_add_has_nan:
  assumes "NotANumber \<in> set vs"
  shows "fold (\<lambda>v acc. fl_add fmt acc v) vs acc = NotANumber"
  using assms
proof (induction vs arbitrary: acc)
  case Nil
  then show ?case by simp
next
  case (Cons v vs)
  show ?case
  proof (cases "v = NotANumber")
    case True
    then show ?thesis by (simp add: fl_add_nan_right fold_add_nan)
  next
    case False
    with Cons.prems have "NotANumber \<in> set vs" by simp
    from Cons.IH[OF this] show ?thesis by simp
  qed
qed

lemma fold_add_zeros:
  assumes "fl fmt 0 = Finite 0" "\<forall>v \<in> set vs. v = Finite 0"
  shows "fold (\<lambda>v acc. fl_add fmt acc v) vs (Finite 0) = Finite 0"
  using assms(2) by (induction vs) (simp_all add: assms(1))

lemma fl_div_zero_by_count:
  assumes "fl fmt 0 = Finite 0" "nearest fmt c \<noteq> 0"
  shows "fl_div fmt (Finite 0) (fl fmt c) = Finite 0"
  using assms by (simp add: fl_def[of fmt c] Let_def)

text \<open>The actual error of a field against itself.\<close>

lemma actual_mse_same:
  assumes zero: "nearest fmt 0 = 0" and largest: "1 \<le> largest_finite fmt"
    and count: "\<And>n :: nat. 1 \<le> n \<Longrightarrow> nearest fmt (real n) \<noteq> 0"
  shows "actual_mse fmt s s =
     (if all_finite s \<and> concat (concat s) \<noteq> [] then Finite 0 else NotANumber)"
proof -
  let ?vs = "concat (concat s)"
  let ?ds = "map (\<lambda>a. squared_difference fmt a a) ?vs"
  have fl0: "fl fmt 0 = Finite 0"
    using fl_zero[OF zero largest] .
  have unfold: "actual_mse fmt s s =
      fl_div fmt (fold (\<lambda>v acc. fl_add fmt acc v) ?ds (Finite 0)) (fl fmt (real (length ?vs)))"
    by (simp add: actual_mse_def K_mean_def map2_same3 flatten_map fl_sum_def Let_def)
  show ?thesis
  proof (cases "?vs = []")
    case True
    show ?thesis unfolding unfold True by (simp add: fl0)
  next
    case nonempty: False
    then have n: "1 \<le> length ?vs"
      by (cases ?vs) simp_all
    show ?thesis
    proof (cases "all_finite s")
      case True
      then have "\<forall>v \<in> set ?ds. v = Finite 0"
        by (auto simp: all_finite_iff squared_difference_same[OF zero largest])
      then have "fold (\<lambda>v acc. fl_add fmt acc v) ?ds (Finite 0) = Finite 0"
        by (rule fold_add_zeros[OF fl0])
      then show ?thesis
        unfolding unfold using True nonempty fl_div_zero_by_count[OF fl0 count[OF n]]
        by simp
    next
      case False
      then obtain v where v: "v \<in> set ?vs" "\<not> is_finite v"
        by (auto simp: all_finite_iff)
      then have "squared_difference fmt v v \<in> set ?ds"
        by simp
      then have "NotANumber \<in> set ?ds"
        using v(2) by (simp add: squared_difference_same[OF zero largest])
      then have "fold (\<lambda>v acc. fl_add fmt acc v) ?ds (Finite 0) = NotANumber"
        by (rule fold_add_has_nan)
      then show ?thesis
        unfolding unfold using False by simp
    qed
  qed
qed

lemma reference_mse_empty:
  assumes "nearest fmt 0 = 0" "1 \<le> largest_finite fmt" "concat (concat s) = []"
  shows "reference_mse fmt s s = NotANumber"
proof -
  have e: "concat (concat (map (map (map (\<lambda>x. sum_of_squares fmt x x))) s)) = []"
    unfolding flatten_map assms(3) by simp
  show ?thesis
    unfolding reference_mse_def K_mean_def map2_same3 fl_sum_def Let_def e
    by (simp add: fl_zero[OF assms(1,2)])
qed

lemma zero_by_reference:
  assumes "fl fmt 0 = Finite 0"
  shows "fl_div fmt (Finite 0) r = (if is_nonzero_number r then Finite 0 else NotANumber)"
  using assms by (cases r) simp_all

lemma quotient_same:
  assumes zero: "nearest fmt 0 = 0" and largest: "1 \<le> largest_finite fmt"
    and count: "\<And>n :: nat. 1 \<le> n \<Longrightarrow> nearest fmt (real n) \<noteq> 0"
  shows "fl_div fmt (actual_mse fmt s s) (reference_mse fmt s s) =
     (if all_finite s \<and> is_nonzero_number (reference_mse fmt s s) then Finite 0
      else NotANumber)"
proof (cases "all_finite s \<and> concat (concat s) \<noteq> []")
  case True
  then have "actual_mse fmt s s = Finite 0"
    by (simp add: actual_mse_same[OF zero largest count])
  then show ?thesis
    using True zero_by_reference[OF fl_zero[OF zero largest]] by simp
next
  case False
  then have a: "actual_mse fmt s s = NotANumber"
    by (simp add: actual_mse_same[OF zero largest count])
  have "\<not> (all_finite s \<and> is_nonzero_number (reference_mse fmt s s))"
  proof (cases "all_finite s")
    case True
    with False have "concat (concat s) = []" by simp
    then show ?thesis
      by (simp add: reference_mse_empty[OF zero largest])
  next
    case False
    then show ?thesis by simp
  qed
  then show ?thesis
    unfolding a by simp
qed

text \<open>
  Claim C6, as amended.  On identical target and prediction tensors the two smoothed fields
  are equal.  In every floating-point format that represents 0 and 1 and rounds no positive
  whole number to zero: if the call does not raise (the half window size is not negative
  and, with valid padding, the grid is at most one cell shorter than the window), every entry
  of the smoothed field is finite and the reference error as computed is a number other than
  zero, then the loss is exactly 0 and the score exactly 1.  Otherwise both are not a number:
  the reference error is zero for a tensor of zeros and also when the squares of all smoothed
  entries round to zero, it is undefined for a smoothed field without entries, and an
  infinite or undefined entry makes the actual error undefined.
\<close>

theorem fractions_skill_score_same_tensor:
  assumes "nearest fmt 0 = 0" and "nearest fmt 1 = 1" and "1 \<le> largest_finite fmt"
    and "\<And>n :: nat. 1 \<le> n \<Longrightarrow> nearest fmt (real n) \<noteq> 0"
  shows "fractions_skill_score python_floats fmt k u tm t t =
     (case smoothed_field python_floats fmt k tm t of
        Inl e \<Rightarrow> Inl e
      | Inr s \<Rightarrow>
          Inr (if all_finite s \<and> is_nonzero_number (reference_mse fmt s s)
               then (if u then Finite 0 else Finite 1)
               else NotANumber))"
proof (cases "smoothed_field python_floats fmt k tm t")
  case (Inl e)
  then show ?thesis by (simp add: fractions_skill_score_def)
next
  case (Inr s)
  have q: "fl_div fmt (actual_mse fmt s s) (reference_mse fmt s s) =
      (if all_finite s \<and> is_nonzero_number (reference_mse fmt s s) then Finite 0
       else NotANumber)"
    using quotient_same[OF assms(1,3,4)] .
  have one: "fl_sub fmt (Finite 1) (Finite 0) = Finite 1"
    using fl_one[OF assms(2,3)] by (simp add: fl_sub_def)
  have nan: "fl_sub fmt (Finite 1) NotANumber = NotANumber"
    by (simp add: fl_sub_def)
  have fss: "fractions_skill_score python_floats fmt k u tm t t =
      Inr (if u then fl_div fmt (actual_mse fmt s s) (reference_mse fmt s s)
           else fl_sub fmt (Finite 1)
                  (fl_div fmt (actual_mse fmt s s) (reference_mse fmt s s)))"
    by (simp add: fractions_skill_score_def Inr Let_def)
  show ?thesis
    unfolding fss Inr q using one nan by simp
qed

subsection \<open>The binary formats qualify\<close>

lemma exponent_search_le:
  "power_int 2 lo \<le> x \<Longrightarrow> power_int 2 (exponent_search lo hi x) \<le> x"
proof (induction lo hi x rule: exponent_search.induct)
  case (1 lo hi x)
  show ?case
  proof (cases "hi \<le> lo + 1")
    case True
    then show ?thesis
      using "1.prems" by (simp add: exponent_search.simps[of lo hi x])
  next
    case wide: False
    show ?thesis
    proof (cases "power_int 2 ((lo + hi) div 2) \<le> x")
      case True
      from "1.IH"(1)[OF wide True True] show ?thesis
        using wide True by (simp add: exponent_search.simps[of lo hi x])
    next
      case False
      from "1.IH"(2)[OF wide False "1.prems"] show ?thesis
        using wide False by (simp add: exponent_search.simps[of lo hi x])
    qed
  qed
qed

lemma round_half_even_ge_one: "1 \<le> y \<Longrightarrow> 1 \<le> round_half_even y"
proof -
  assume "1 \<le> y"
  then have "1 \<le> \<lfloor>y\<rfloor>"
    by (simp add: le_floor_iff)
  then show ?thesis
    by (simp add: round_half_even_def Let_def)
qed

lemma round_binary_positive:
  assumes "1 \<le> x" and "emin + 1 \<le> int p" and "1 \<le> p"
  shows "0 < round_binary p emin emax x"
proof -
  define e where "e = binary_exponent emin emax x"
  define q :: real where "q = power_int 2 (e - int p + 1)"
  have qpos: "0 < q"
    unfolding q_def by simp
  have "q \<le> x"
  proof (cases "\<bar>x\<bar> < power_int 2 emin")
    case True
    then have "e = emin"
      by (simp add: e_def binary_exponent_def)
    then have "q \<le> power_int 2 0"
      unfolding q_def using assms(2) by (intro power_int_increasing) simp_all
    then show ?thesis
      using assms(1) by simp
  next
    case False
    then have lo: "power_int 2 emin \<le> x"
      using assms(1) by simp
    have "e = exponent_search emin (emax + 1) x"
      using False assms(1) by (simp add: e_def binary_exponent_def)
    then have "power_int 2 e \<le> x"
      using exponent_search_le[OF lo] by simp
    moreover have "q \<le> power_int 2 e"
      unfolding q_def using assms(3) by (intro power_int_increasing) simp_all
    ultimately show ?thesis
      by simp
  qed
  then have "1 \<le> x / q"
    using qpos by (simp add: le_divide_eq)
  then have "1 \<le> round_half_even (x / q)"
    by (rule round_half_even_ge_one)
  then have "(1::real) \<le> of_int (round_half_even (x / q))"
    by simp
  then have "0 < of_int (round_half_even (x / q)) * q"
    using qpos by simp
  then show ?thesis
    by (simp add: round_binary_def Let_def q_def e_def)
qed

lemmas float_eval = binary32_def binary64_def round_binary_def binary_exponent_def
  exponent_search.simps round_half_even_def fl_def Let_def

lemma binary32_zero: "nearest binary32 0 = 0"
  by (simp add: float_eval)

lemma binary32_one: "nearest binary32 1 = 1"
  by (simp add: float_eval)

lemma binary32_largest: "1 \<le> largest_finite binary32"
  by (simp add: binary32_def)

lemma binary32_counts:
  fixes n :: nat
  shows "1 \<le> n \<Longrightarrow> nearest binary32 (real n) \<noteq> 0"
  using round_binary_positive[of "real n" "- 126" 24 127] by (simp add: binary32_def)

lemma binary64_zero: "nearest binary64 0 = 0"
  by (simp add: float_eval)

lemma binary64_one: "nearest binary64 1 = 1"
  by (simp add: float_eval)

lemma binary64_largest: "1 \<le> largest_finite binary64"
  by (simp add: binary64_def)

lemma binary64_counts:
  fixes n :: nat
  shows "1 \<le> n \<Longrightarrow> nearest binary64 (real n) \<noteq> 0"
  using round_binary_positive[of "real n" "- 1022" 53 1023] by (simp add: binary64_def)

subsection \<open>Examples in 32 bits\<close>

lemmas conv_eval = smoothed_field_def create_mean_filter_def assert_is_geq_def
  assert_is_greater_def conv2d_one_def kernel_sum_def num_columns_of_def padded_cell_def
  fl_sum_def eval_nat_numeral upt_rec

lemmas mse_eval = reference_mse_def actual_mse_def K_mean_def sum_of_squares_def
  squared_difference_def fl_sub_def fl_sum_def all_finite_def

text \<open>
  The weight of the window of side 3 is 1/9 rounded to 64 bits and then to 32 bits; the
  smoothed value of the two events is twice that weight.
\<close>

lemma smoothed_one_event:
  "smoothed_field binary64 binary32 0 False one_event_tensor = Inr [[[Finite 1]]]"
  by (simp add: conv_eval one_event_tensor_def) (simp add: float_eval)

lemma smoothed_tiny:
  "smoothed_field binary64 binary32 0 False tiny_tensor = Inr [[[Finite (1 / 2 ^ 80)]]]"
  by (simp add: conv_eval tiny_tensor_def) (simp add: float_eval)

lemma smoothed_no_event:
  "smoothed_field binary64 binary32 1 False no_event_tensor = Inr [[[Finite 0]]]"
  by (simp add: conv_eval no_event_tensor_def) (simp add: float_eval)

lemma smoothed_two_event:
  "smoothed_field binary64 binary32 1 False two_event_tensor =
     Inr [[[Finite (14913081 / 67108864)]]]"
  by (simp add: conv_eval two_event_tensor_def) (simp add: float_eval)

lemma reference_examples:
  "reference_mse binary32 [[[Finite 1]]] [[[Finite 1]]] = Finite 2"
  "reference_mse binary32 [[[Finite (1 / 2 ^ 80)]]] [[[Finite (1 / 2 ^ 80)]]] = Finite 0"
  "reference_mse binary32 [[[Finite 0]]] [[[Finite 0]]] = Finite 0"
  "reference_mse binary32 [[[Finite (14913081 / 67108864)]]]
     [[[Finite (14913081 / 67108864)]]] = Finite (1657009 / 16777216)"
  by (simp_all add: mse_eval) (simp_all add: float_eval)

theorem fractions_skill_score_same_tensor_witness:
  "nearest binary32 0 = 0 \<and> nearest binary32 1 = 1 \<and> 1 \<le> largest_finite binary32 \<and>
   fractions_skill_score binary64 binary32 1 True False two_event_tensor two_event_tensor =
     Inr (Finite 0) \<and>
   fractions_skill_score binary64 binary32 1 False False two_event_tensor two_event_tensor =
     Inr (Finite 1) \<and>
   fractions_skill_score binary64 binary32 0 True False one_event_tensor one_event_tensor =
     Inr (Finite 0) \<and>
   fractions_skill_score binary64 binary32 0 False False tiny_tensor tiny_tensor =
     Inr NotANumber"
  using
    fractions_skill_score_same_tensor[OF binary32_zero binary32_one binary32_largest
      binary32_counts, of binary64 1 True False two_event_tensor]
    fractions_skill_score_same_tensor[OF binary32_zero binary32_one binary32_largest
      binary32_counts, of binary64 1 False False two_event_tensor]
    fractions_skill_score_same_tensor[OF binary32_zero binary32_one binary32_largest
      binary32_counts, of binary64 0 True False one_event_tensor]
    fractions_skill_score_same_tensor[OF binary32_zero binary32_one binary32_largest
      binary32_counts, of binary64 0 False False tiny_tensor]
  unfolding smoothed_two_event smoothed_one_event smoothed_tiny sum.case reference_examples
  by (simp add: all_finite_def binary32_zero binary32_one binary32_largest)

text \<open>
  A single value of \<open>2\<^sup>-\<^sup>8\<^sup>0\<close> in 32 bits: the smoothed field is not zero, but its square
  rounds to zero, so that the reference error is zero and the loss is 0/0.  In exact
  arithmetic the loss would be 0.
\<close>

lemma fractions_skill_score_underflow:
  "fractions_skill_score binary64 binary32 0 True False tiny_tensor tiny_tensor =
     Inr NotANumber"
proof -
  have "fl_div binary32 (actual_mse binary32 [[[Finite (1 / 2 ^ 80)]]] [[[Finite (1 / 2 ^ 80)]]])
      (reference_mse binary32 [[[Finite (1 / 2 ^ 80)]]] [[[Finite (1 / 2 ^ 80)]]]) = NotANumber"
    using quotient_same[OF binary32_zero binary32_largest binary32_counts,
        of "[[[Finite (1 / 2 ^ 80)]]]"]
    unfolding reference_examples(2) by simp
  then show ?thesis
    unfolding fractions_skill_score_def smoothed_tiny Let_def by simp
qed

text \<open>
  The claim as stated fails on a target without any event: with the window of side 3 and
  valid padding the smoothed field of the three-by-three tensor of zeros is the single value 0,
  both errors are 0, and the loss and the score are 0/0.
\<close>

theorem fractions_skill_score_no_event:
  "fractions_skill_score binary64 binary32 1 True False no_event_tensor no_event_tensor =
     Inr NotANumber \<and>
   fractions_skill_score binary64 binary32 1 False False no_event_tensor no_event_tensor =
     Inr NotANumber"
proof -
  have "fl_div binary32 (actual_mse binary32 [[[Finite 0]]] [[[Finite 0]]])
      (reference_mse binary32 [[[Finite 0]]] [[[Finite 0]]]) = NotANumber"
    using quotient_same[OF binary32_zero binary32_largest binary32_counts, of "[[[Finite 0]]]"]
    unfolding reference_examples(3) by simp
  then show ?thesis
    unfolding fractions_skill_score_def smoothed_no_event Let_def
    by (simp add: fl_sub_def)
qed


section \<open>Spatial downsampling on the grid of the unit test\<close>

text \<open>The model returns the dictionaries that the unit test expects.\<close>

lemma downsample_factor2:
  "downsample_data_in_space SATELLITE_DICT RADAR_DICT 2 True =
     Inr (SATELLITE_DICT_DOWNSAMPLED2, RADAR_DICT_DOWNSAMPLED2)"
  by code_simp

lemma downsample_factor4:
  "downsample_data_in_space SATELLITE_DICT RADAR_DICT 4 True =
     Inr (SATELLITE_DICT_DOWNSAMPLED4, RADAR_DICT_DOWNSAMPLED4)"
  by code_simp

lemma downsampled2_temperatures:
  "map (band 0) (the_temps SATELLITE_DICT_DOWNSAMPLED2) =
     map (\<lambda>x. per_block mean 2 (band 0 x)) (the_temps SATELLITE_DICT) \<and>
   map (band 1) (the_temps SATELLITE_DICT_DOWNSAMPLED2) =
     map (\<lambda>x. per_block mean 2 (band 1 x)) (the_temps SATELLITE_DICT)"
  by code_simp

lemma downsampled2_reflectivities:
  "composite_refl_dbz RADAR_DICT_DOWNSAMPLED2 =
     map (per_block maximum 2) (composite_refl_dbz RADAR_DICT)"
  by code_simp

lemma downsampled2_coordinates:
  "sat_latitudes_deg_n SATELLITE_DICT_DOWNSAMPLED2 = midpoints 2 LATITUDES_DEG_N \<and>
   sat_longitudes_deg_e SATELLITE_DICT_DOWNSAMPLED2 = midpoints 2 LONGITUDES_DEG_E \<and>
   radar_latitudes_deg_n RADAR_DICT_DOWNSAMPLED2 = midpoints 2 LATITUDES_DEG_N \<and>
   radar_longitudes_deg_e RADAR_DICT_DOWNSAMPLED2 = midpoints 2 LONGITUDES_DEG_E"
  by code_simp

lemma downsampled4_temperatures:
  "map (band 0) (the_temps SATELLITE_DICT_DOWNSAMPLED4) =
     map (\<lambda>x. [[mean (concat (map (take 4) (take 4 (band 0 x))))]]) (the_temps SATELLITE_DICT) \<and>
   map (band 1) (the_temps SATELLITE_DICT_DOWNSAMPLED4) =
     map (\<lambda>x. [[mean (concat (map (take 4) (take 4 (band 1 x))))]]) (the_temps SATELLITE_DICT)"
  by code_simp

lemma downsampled4_reflectivities:
  "composite_refl_dbz RADAR_DICT_DOWNSAMPLED4 =
     map (\<lambda>x. [[maximum (concat (map (take 4) (take 4 x)))]]) (composite_refl_dbz RADAR_DICT)"
  by code_simp

lemma downsampled4_coordinates:
  "sat_latitudes_deg_n SATELLITE_DICT_DOWNSAMPLED4 = [mean (take 4 LATITUDES_DEG_N)] \<and>
   sat_longitudes_deg_e SATELLITE_DICT_DOWNSAMPLED4 = [mean (take 4 LONGITUDES_DEG_E)] \<and>
   radar_latitudes_deg_n RADAR_DICT_DOWNSAMPLED4 = [mean (take 4 LATITUDES_DEG_N)] \<and>
   radar_longitudes_deg_e RADAR_DICT_DOWNSAMPLED4 = [mean (take 4 LONGITUDES_DEG_E)]"
  by code_simp

text \<open>
  Claim C3, as stated, at the grid of the unit test: with factor 2 the reflectivities would
  be the averages of the 2-by-2 blocks, and with factor 4 the single cell would carry the
  midpoint of the whole domain and the averages over all 6-by-4 cells.  The expected
  dictionaries of the test hold other values: the reflectivity of every block is its
  maximum (30 against the average 20 in the first block), and for factor 4 the latitude is
  53.3 against the midpoint 53.5, the band-8 temperature 230 against the average 745/3 and
  the reflectivity 70 against the average 42.5.
\<close>

theorem downsample_not_the_average:
  "downsample_data_in_space SATELLITE_DICT RADAR_DICT 2 True =
     Inr (SATELLITE_DICT_DOWNSAMPLED2, RADAR_DICT_DOWNSAMPLED2) \<and>
   composite_refl_dbz RADAR_DICT_DOWNSAMPLED2 \<noteq>
     map (per_block mean 2) (composite_refl_dbz RADAR_DICT) \<and>
   composite_refl_dbz RADAR_DICT_DOWNSAMPLED2 ! 0 = [[30, 50], [50, 70], [60, 80]] \<and>
   per_block mean 2 (composite_refl_dbz RADAR_DICT ! 0) = [[20, 40], [40, 60], [105 / 2, 85 / 2]] \<and>
   downsample_data_in_space SATELLITE_DICT RADAR_DICT 4 True =
     Inr (SATELLITE_DICT_DOWNSAMPLED4, RADAR_DICT_DOWNSAMPLED4) \<and>
   sat_latitudes_deg_n SATELLITE_DICT_DOWNSAMPLED4 \<noteq> [mean (sat_latitudes_deg_n SATELLITE_DICT)] \<and>
   sat_latitudes_deg_n SATELLITE_DICT_DOWNSAMPLED4 = [533 / 10] \<and>
   mean (sat_latitudes_deg_n SATELLITE_DICT) = 535 / 10 \<and>
   band 0 (the_temps SATELLITE_DICT_DOWNSAMPLED4 ! 0) = [[230]] \<and>
   mean (concat (band 0 (the_temps SATELLITE_DICT ! 0))) = 745 / 3 \<and>
   composite_refl_dbz RADAR_DICT_DOWNSAMPLED4 ! 0 = [[70]] \<and>
   mean (concat (composite_refl_dbz RADAR_DICT ! 0)) = 85 / 2"
proof -
  have "composite_refl_dbz RADAR_DICT_DOWNSAMPLED2 \<noteq>
      map (per_block mean 2) (composite_refl_dbz RADAR_DICT)"
    by code_simp
  moreover have "sat_latitudes_deg_n SATELLITE_DICT_DOWNSAMPLED4 \<noteq>
      [mean (sat_latitudes_deg_n SATELLITE_DICT)]"
    by code_simp
  moreover have "composite_refl_dbz RADAR_DICT_DOWNSAMPLED2 ! 0 = [[30, 50], [50, 70], [60, 80]]"
    by code_simp
  moreover have "per_block mean 2 (composite_refl_dbz RADAR_DICT ! 0) =
      [[20, 40], [40, 60], [105 / 2, 85 / 2]]"
    by code_simp
  moreover have "sat_latitudes_deg_n SATELLITE_DICT_DOWNSAMPLED4 = [533 / 10]"
    by code_simp
  moreover have "mean (sat_latitudes_deg_n SATELLITE_DICT) = 535 / 10"
    by code_simp
  moreover have "band 0 (the_temps SATELLITE_DICT_DOWNSAMPLED4 ! 0) = [[230]]"
    by code_simp
  moreover have "mean (concat (band 0 (the_temps SATELLITE_DICT ! 0))) = 745 / 3"
    by code_simp
  moreover have "composite_refl_dbz RADAR_DICT_DOWNSAMPLED4 ! 0 = [[70]]"
    by code_simp
  moreover have "mean (concat (composite_refl_dbz RADAR_DICT ! 0)) = 85 / 2"
    by code_simp
  ultimately show ?thesis
    using downsample_factor2 downsample_factor4 by blast
qed

text \<open>
  Claim C3, amended: on the 6-by-4 grid of the unit test, factor 2 yields the 3-by-2 grid
  whose coordinates are the midpoints of the blocks, whose brightness temperatures are the
  block averages and whose composite reflectivities are the block maxima; factor 4 yields a
  1-by-1 grid that describes the first 4-by-4 block only, the last two rows being dropped:
  its coordinates are the means of the first four latitudes and of the four longitudes, its
  temperatures the average and its reflectivity the maximum over that block.
\<close>

theorem downsample_documented_example:
  "downsample_data_in_space SATELLITE_DICT RADAR_DICT 2 True =
     Inr (SATELLITE_DICT_DOWNSAMPLED2, RADAR_DICT_DOWNSAMPLED2) \<and>
   map (band 0) (the_temps SATELLITE_DICT_DOWNSAMPLED2) =
     map (\<lambda>x. per_block mean 2 (band 0 x)) (the_temps SATELLITE_DICT) \<and>
   map (band 1) (the_temps SATELLITE_DICT_DOWNSAMPLED2) =
     map (\<lambda>x. per_block mean 2 (band 1 x)) (the_temps SATELLITE_DICT) \<and>
   composite_refl_dbz RADAR_DICT_DOWNSAMPLED2 =
     map (per_block maximum 2) (composite_refl_dbz RADAR_DICT) \<and>
   sat_latitudes_deg_n SATELLITE_DICT_DOWNSAMPLED2 = midpoints 2 LATITUDES_DEG_N \<and>
   sat_longitudes_deg_e SATELLITE_DICT_DOWNSAMPLED2 = midpoints 2 LONGITUDES_DEG_E \<and>
   radar_latitudes_deg_n RADAR_DICT_DOWNSAMPLED2 = midpoints 2 LATITUDES_DEG_N \<and>
   radar_longitudes_deg_e RADAR_DICT_DOWNSAMPLED2 = midpoints 2 LONGITUDES_DEG_E \<and>
   downsample_data_in_space SATELLITE_DICT RADAR_DICT 4 True =
     Inr (SATELLITE_DICT_DOWNSAMPLED4, RADAR_DICT_DOWNSAMPLED4) \<and>
   map (band 0) (the_temps SATELLITE_DICT_DOWNSAMPLED4) =
     map (\<lambda>x. [[mean (concat (map (take 4) (take 4 (band 0 x))))]]) (the_temps SATELLITE_DICT) \<and>
   map (band 1) (the_temps SATELLITE_DICT_DOWNSAMPLED4) =
     map (\<lambda>x. [[mean (concat (map (take 4) (take 4 (band 1 x))))]]) (the_temps SATELLITE_DICT) \<and>
   composite_refl_dbz RADAR_DICT_DOWNSAMPLED4 =
     map (\<lambda>x. [[maximum (concat (map (take 4) (take 4 x)))]]) (composite_refl_dbz RADAR_DICT) \<and>
   sat_latitudes_deg_n SATELLITE_DICT_DOWNSAMPLED4 = [mean (take 4 LATITUDES_DEG_N)] \<and>
   sat_longitudes_deg_e SATELLITE_DICT_DOWNSAMPLED4 = [mean (take 4 LONGITUDES_DEG_E)] \<and>
   radar_latitudes_deg_n RADAR_DICT_DOWNSAMPLED4 = [mean (take 4 LATITUDES_DEG_N)] \<and>
   radar_longitudes_deg_e RADAR_DICT_DOWNSAMPLED4 = [mean (take 4 LONGITUDES_DEG_E)]"
  using downsample_factor2 downsampled2_temperatures downsampled2_reflectivities
    downsampled2_coordinates downsample_factor4 downsampled4_temperatures
    downsampled4_reflectivities downsampled4_coordinates
  by blast


section \<open>The two readers of one day\<close>

lemma good_times_init:
  assumes "good_times valid_times lead_time predictor_times = Some (vt, it)"
  shows "it = map (\<lambda>t. t - lead_time) vt"
proof -
  define gi where "gi = filter (\<lambda>i. map (\<lambda>t. t \<in> set predictor_times)
      (map (\<lambda>t. t - lead_time) valid_times) ! i) [0 ..< length valid_times]"
  have vt: "vt = map (\<lambda>i. valid_times ! i) gi"
    and it: "it = map (\<lambda>i. map (\<lambda>t. t - lead_time) valid_times ! i) gi"
    using assms unfolding good_times_def Let_def gi_def
    by (simp_all split: if_splits)
  have "\<forall>i \<in> set gi. i < length valid_times"
    unfolding gi_def by simp
  then show ?thesis
    unfolding vt it by simp
qed

lemma good_times_valid:
  assumes "good_times valid_times lead_time predictor_times = Some (vt, it)"
  shows "set vt \<subseteq> set valid_times \<and> (\<forall>t \<in> set vt. t - lead_time \<in> set predictor_times)"
proof -
  define gi where "gi = filter (\<lambda>i. map (\<lambda>t. t \<in> set predictor_times)
      (map (\<lambda>t. t - lead_time) valid_times) ! i) [0 ..< length valid_times]"
  have vt: "vt = map (\<lambda>i. valid_times ! i) gi"
    using assms unfolding good_times_def Let_def gi_def
    by (simp_all split: if_splits)
  have "\<forall>i \<in> set gi. i < length valid_times \<and> valid_times ! i - lead_time \<in> set predictor_times"
    unfolding gi_def by auto
  then show ?thesis
    unfolding vt by auto
qed

text \<open>
  Whatever the helper modules do: when the raw reader returns examples, it has asked
  \<open>radar_io.subset_by_time\<close> for the radar fields at the valid times that it reports, and
  \<open>satellite_io.subset_by_time\<close> for the satellite fields one lead time earlier.
\<close>

lemma raw_reader_subsets_radar_at_valid_times:
  assumes "raw_examples h radar_dict satellite_dict norm_dict_for_count uniformize
             lead_time_seconds reflectivity_threshold_dbz spatial_downsampling_factor
             num_examples_to_read return_coords = Inr (Some d)"
  shows "\<exists>r s. radar_io_subset_by_time h radar_dict (valid_times_key d) = Inr r \<and>
           satellite_io_subset_by_time h satellite_dict
             (map (\<lambda>t. t - lead_time_seconds) (valid_times_key d)) = Inr s \<and>
           (int (length (valid_times_key d)) < num_examples_to_read \<and>
            spatial_downsampling_factor \<le> 1 \<longrightarrow>
              target_matrix_key d =
                threshold_targets reflectivity_threshold_dbz (composite_refl_dbz r))"
proof -
  obtain vt it where g: "good_times (radar_valid_times_unix_sec radar_dict) lead_time_seconds
      (sat_valid_times_unix_sec satellite_dict) = Some (vt, it)"
    using assms unfolding raw_examples_def by (auto split: option.splits)
  have it: "it = map (\<lambda>t. t - lead_time_seconds) vt"
    using good_times_init[OF g] .
  obtain r where r: "radar_io_subset_by_time h radar_dict vt = Inr r"
    using assms g unfolding raw_examples_def and_then_def
    by (auto split: sum.splits)
  obtain s where s: "satellite_io_subset_by_time h satellite_dict it = Inr s"
    using assms g r unfolding raw_examples_def and_then_def
    by (auto split: sum.splits)
  have v: "valid_times_key d = vt"
    using assms g r s unfolding raw_examples_def and_then_def Let_def
    by (auto split: sum.splits prod.splits if_splits option.splits)
  have "int (length vt) < num_examples_to_read \<and> spatial_downsampling_factor \<le> 1 \<longrightarrow>
      target_matrix_key d = threshold_targets reflectivity_threshold_dbz (composite_refl_dbz r)"
    using assms g r s unfolding raw_examples_def and_then_def Let_def
    by (auto split: sum.splits prod.splits if_splits option.splits)
  then show ?thesis
    using r s it v by auto
qed

text \<open>
  The pre-processed reader, whatever the helper module does: when it returns examples, it
  has asked \<open>example_io.subset_by_time\<close> for the targets at the initialisation times, one
  lead time before the valid times that it reports, and returns those targets.
\<close>

lemma preprocessed_reader_subsets_targets_at_init_times:
  assumes "preprocessed_examples h target_dict predictor_dict normalize_flag uniformize
             lead_time_seconds num_examples_to_read return_coords = Inr (Some d)"
  shows "\<exists>t p. example_io_subset_targets_by_time h target_dict
             (map (\<lambda>t. t - lead_time_seconds) (valid_times_key d)) = Inr t \<and>
           example_io_subset_predictors_by_time h predictor_dict
             (map (\<lambda>t. t - lead_time_seconds) (valid_times_key d)) = Inr p \<and>
           (int (length (valid_times_key d)) < num_examples_to_read \<longrightarrow>
              target_matrix_key d = map (map (map (\<lambda>v. [v]))) (target_matrix_of_file t))"
proof -
  obtain vt it where g: "good_times (target_valid_times_unix_sec target_dict) lead_time_seconds
      (predictor_valid_times_unix_sec predictor_dict) = Some (vt, it)"
    using assms unfolding preprocessed_examples_def by (auto split: option.splits)
  have it: "it = map (\<lambda>t. t - lead_time_seconds) vt"
    using good_times_init[OF g] .
  obtain p where p: "example_io_subset_predictors_by_time h predictor_dict it = Inr p"
    using assms g unfolding preprocessed_examples_def and_then_def
    by (auto split: sum.splits)
  obtain t where t: "example_io_subset_targets_by_time h target_dict it = Inr t"
    using assms g p unfolding preprocessed_examples_def and_then_def
    by (auto split: sum.splits)
  have v: "valid_times_key d = vt"
    using assms g p t unfolding preprocessed_examples_def and_then_def Let_def
    by (auto split: sum.splits prod.splits if_splits)
  have "int (length vt) < num_examples_to_read \<longrightarrow>
      target_matrix_key d = map (map (map (\<lambda>v. [v]))) (target_matrix_of_file t)"
    using assms g p t unfolding preprocessed_examples_def and_then_def Let_def
    by (auto split: sum.splits prod.splits if_splits)
  then show ?thesis
    using p t it v by auto
qed

text \<open>The two sets of files hold the same data.\<close>

lemma files_hold_the_same_data:
  "map (map (map (\<lambda>v. [v]))) (target_matrix_of_file targets_today) =
     threshold_targets 35 (composite_refl_dbz radar_today) \<and>
   target_valid_times_unix_sec targets_today = radar_valid_times_unix_sec radar_today \<and>
   map (\<lambda>f. (fst f, predictor_matrix_unnorm (snd f), predictor_valid_times_unix_sec (snd f)))
       predictor_files =
     map (\<lambda>f. (fst f, brightness_counts (snd f), sat_valid_times_unix_sec (snd f)))
       satellite_files"
  by code_simp

text \<open>Without lead time the two readers return the same examples of that day.\<close>

lemma readers_agree_without_lead_time:
  "read_raw_inputs_one_day (memory_raw_helpers radar_files satellite_files) ''20200102''
     file_names [8] None False [''20200102.nc''] 0 35 1 64 True =
   read_preprocessed_inputs_one_day (memory_example_helpers target_files predictor_files)
     ''20200102'' file_names [8] False False [''20200102.nc''] 0 64 True"
  by code_simp

text \<open>
  With a lead time of 20 minutes and a scan of the day before 10 minutes before midnight,
  the raw reader returns two examples; the pre-processed reader asks for the targets 10
  minutes before midnight, which the target file of the day does not hold, and the lookup
  fails.
\<close>

lemma preprocessed_reader_fails_across_midnight:
  "read_raw_inputs_one_day (memory_raw_helpers radar_files satellite_files_complete)
     ''20200102'' file_names [8] None False [''20200102.nc''] 1200 35 1 64 False =
     Inr (Some \<lparr>predictor_matrix_key = Some [[[[100]]], [[[110]]]],
                target_matrix_key = [[[[0]]], [[[1]]]],
                valid_times_key = [1577923800, 1577925000],
                latitudes_key = None, longitudes_key = None\<rparr>) \<and>
   read_preprocessed_inputs_one_day
     (memory_example_helpers target_files predictor_files_complete)
     ''20200102'' file_names [8] False False [''20200102.nc''] 1200 64 False = Inl ValueError"
  by code_simp

text \<open>
  Claim C2 at a lead time of 600 seconds on the day above.  Both readers return two examples
  with the valid times 00:20 and 00:30 and the predictors of 00:10 and 00:20.  The raw reader
  returns the targets of the valid times (1 and 1: 40 and 50 dBZ); the pre-processed reader
  returns the targets of the initialisation times 00:10 and 00:20 (0 and 1: 10 and 40 dBZ),
  so that its first example pairs a predictor with the target of the same time.
\<close>

theorem preprocessed_reader_returns_targets_at_init_times:
  "read_raw_inputs_one_day (memory_raw_helpers radar_files satellite_files) ''20200102''
     file_names [8] None False [''20200102.nc''] 600 35 1 64 False =
     Inr (Some \<lparr>predictor_matrix_key = Some [[[[110]]], [[[120]]]],
                target_matrix_key = [[[[1]]], [[[1]]]],
                valid_times_key = [1577924400, 1577925000],
                latitudes_key = None, longitudes_key = None\<rparr>) \<and>
   read_preprocessed_inputs_one_day (memory_example_helpers target_files predictor_files)
     ''20200102'' file_names [8] False False [''20200102.nc''] 600 64 False =
     Inr (Some \<lparr>predictor_matrix_key = Some [[[[110]]], [[[120]]]],
                target_matrix_key = [[[[0]]], [[[1]]]],
                valid_times_key = [1577924400, 1577925000],
                latitudes_key = None, longitudes_key = None\<rparr>)"
  by code_simp


end
